theory Spec2Isabelle
  imports Main "HOL-Library.Sublist" "HOL-Library.Char_ord" "HOL-Library.List_Lexorder"
    "HOL-Library.Multiset" "HOL-Library.AList"
begin

section \<open>The storage boundary\<close>

text \<open>
  The handlers talk to the relational store through a query builder whose calls resolve
  to a pair of a row (or null) and an error (or null). A table is a list of rows; a
  filtered read is \<^const>\<open>filter\<close> on that list. An infrastructure failure of a read is
  an entry of the environment's fault function under the name of the read.
\<close>

record pg_error =
  code :: string
  message :: "string option"

record 'a query_result =
  data :: "'a option"
  error :: "pg_error option"

definition PGRST116 :: pg_error where
  "PGRST116 = \<lparr>code = ''PGRST116'',
     message = Some ''JSON object requested, multiple (or no) rows returned''\<rparr>"

text \<open>\<open>.maybeSingle()\<close>: no row is null without an error, one row is that row, several
  rows are the error PGRST116.\<close>

definition maybeSingle :: "'a list \<Rightarrow> 'a query_result" where
  "maybeSingle rows =
     (case rows of
        [] \<Rightarrow> \<lparr>data = None, error = None\<rparr>
      | [r] \<Rightarrow> \<lparr>data = Some r, error = None\<rparr>
      | _ \<Rightarrow> \<lparr>data = None, error = Some PGRST116\<rparr>)"

text \<open>\<open>.single()\<close>: exactly one row, anything else is the error PGRST116.\<close>

definition single :: "'a list \<Rightarrow> 'a query_result" where
  "single rows =
     (case rows of
        [r] \<Rightarrow> \<lparr>data = Some r, error = None\<rparr>
      | _ \<Rightarrow> \<lparr>data = None, error = Some PGRST116\<rparr>)"

definition run_query :: "pg_error option \<Rightarrow> 'a query_result \<Rightarrow> 'a query_result" where
  "run_query flt r = (case flt of Some e \<Rightarrow> \<lparr>data = None, error = Some e\<rparr> | None \<Rightarrow> r)"

section \<open>Strings\<close>

text \<open>
  Strings are lists of bytes. \<open>startsWith\<close> is the prefix test; \<open>toLowerCase\<close> and
  \<open>trim\<close> act on the ASCII letters and the ASCII white space.
\<close>

definition startsWith :: "string \<Rightarrow> string \<Rightarrow> bool" where
  "startsWith s p = prefix p s"

definition toLowerCase :: "string \<Rightarrow> string" where
  "toLowerCase s =
     map (\<lambda>c. if CHR ''A'' \<le> c \<and> c \<le> CHR ''Z'' then char_of (of_char c + (32::nat)) else c) s"

definition is_space :: "char \<Rightarrow> bool" where
  "is_space c = (of_char c \<in> {9, 10, 11, 12, 13, 32 :: nat})"

definition trim :: "string \<Rightarrow> string" where
  "trim s = rev (dropWhile is_space (rev (dropWhile is_space s)))"

section \<open>Redirect targets: \<open>src/utils/lib/sanitize-redirect.ts\<close>\<close>

definition DISALLOWED_PREFIXES :: "string list" where
  "DISALLOWED_PREFIXES = [''/api'', ''/auth'', ''/login'', ''/signup'']"

definition isBlocked :: "string \<Rightarrow> bool" where
  "isBlocked pathname =
     list_ex (\<lambda>p. pathname = p \<or> startsWith pathname (p @ ''/'')) DISALLOWED_PREFIXES"

text \<open>\<open>parse_url\<close> stands for \<open>new URL(candidate)\<close>: \<open>None\<close> when it throws, else the
  path, query and fragment of the parsed URL.\<close>

definition sanitizeRedirectPath :: "(string \<Rightarrow> string option) \<Rightarrow> string \<Rightarrow> string option" where
  "sanitizeRedirectPath parse_url input =
     (let candidate = trim input
      in if candidate = [] then None
         else (case (if startsWith candidate ''http://'' \<or> startsWith candidate ''https://''
                     then parse_url candidate else Some candidate) of
                 None \<Rightarrow> None
               | Some cand \<Rightarrow>
                   (if \<not> startsWith cand ''/'' then None
                    else if startsWith cand ''//'' then None
                    else if isBlocked (takeWhile (\<lambda>c. c \<noteq> CHR ''?'' \<and> c \<noteq> CHR ''#'') cand) then None
                    else Some cand)))"

section \<open>The route guard: \<open>src/middleware.ts\<close>\<close>

text \<open>
  A response is the untouched request going on (\<open>NextResponse.next\<close>), a redirect with
  its target path, its \<open>origin\<close> query parameter and its status, or a JSON error record
  \<open>{error}\<close> with its status.
\<close>

datatype response =
    Next
  | Redirect string "string option" nat
  | Json string nat

record mw_profile =
  mp_userid :: string
  mp_roleid :: "int option"
  mp_is_guruwali :: "bool option"

record mw_env =
  mw_user :: "string option"
  mw_pathname :: string
  mw_search :: string
  mw_hash :: string
  mw_profiles :: "mw_profile list"
  mw_roles :: "(int \<times> string) list"
  mw_fault :: "string \<Rightarrow> pg_error option"
  mw_parse_url :: "string \<Rightarrow> string option"

definition publicRoutes :: "string list" where
  "publicRoutes = [''/login'', ''/auth/callback'', ''/auth/confirm'', ''/error'',
                   ''/auth/auth-code-error'', ''/tos'']"

definition redirect302 :: "string \<Rightarrow> response" where
  "redirect302 p = Redirect p None 302"

definition roleKey_of :: "string option \<Rightarrow> string" where
  "roleKey_of roleName = (case roleName of None \<Rightarrow> [] | Some n \<Rightarrow> toLowerCase n)"

text \<open>The protection checks, in the order of the source. Each one either returns its
  redirect or lets the request fall through to the next.\<close>

definition check_dashboard :: "string \<Rightarrow> string \<Rightarrow> response option" where
  "check_dashboard pathname roleKey =
     (if startsWith pathname ''/dashboard'' \<and> roleKey \<noteq> ''admin'' \<and> roleKey \<noteq> ''teacher'' then
        Some (redirect302
          (if roleKey = ''teacher'' then ''/guru''
           else if roleKey = ''guruwali'' then ''/guruwali''
           else if roleKey = ''student'' then ''/siswa''
           else if roleKey = ''parent'' then ''/orangtua''
           else ''/unknown''))
      else None)"

definition check_siswa :: "string \<Rightarrow> string \<Rightarrow> response option" where
  "check_siswa pathname roleKey =
     (if startsWith pathname ''/siswa'' \<and> roleKey \<noteq> ''student'' then
        Some (redirect302
          (if roleKey = ''admin'' then ''/dashboard''
           else if roleKey = ''teacher'' then ''/guru''
           else if roleKey = ''guruwali'' then ''/guruwali''
           else if roleKey = ''parent'' then ''/orangtua''
           else ''/unknown''))
      else None)"

definition check_guru :: "string \<Rightarrow> string \<Rightarrow> bool \<Rightarrow> response option" where
  "check_guru pathname roleKey isGuruWali =
     (if startsWith pathname ''/guru'' \<and> roleKey \<noteq> ''teacher'' \<and> \<not> isGuruWali then
        Some (redirect302
          (if roleKey = ''admin'' then ''/dashboard''
           else if roleKey = ''student'' then ''/siswa''
           else if roleKey = ''parent'' then ''/orangtua''
           else ''/unknown''))
      else None)"

definition check_guruwali :: "string \<Rightarrow> string \<Rightarrow> bool \<Rightarrow> response option" where
  "check_guruwali pathname roleKey isGuruWali =
     (if startsWith pathname ''/guruwali'' \<and> \<not> isGuruWali then
        Some (redirect302
          (if roleKey = ''admin'' then ''/dashboard''
           else if roleKey = ''teacher'' then ''/guru''
           else if roleKey = ''student'' then ''/siswa''
           else if roleKey = ''parent'' then ''/orangtua''
           else ''/unknown''))
      else None)"

definition check_orangtua :: "string \<Rightarrow> string \<Rightarrow> response option" where
  "check_orangtua pathname roleKey =
     (if startsWith pathname ''/orangtua'' \<and> roleKey \<noteq> ''parent'' then
        Some (redirect302
          (if roleKey = ''admin'' then ''/dashboard''
           else if roleKey = ''teacher'' then ''/guru''
           else if roleKey = ''guruwali'' then ''/guruwali''
           else if roleKey = ''student'' then ''/siswa''
           else ''/unknown''))
      else None)"

definition check_unknown :: "string \<Rightarrow> string \<Rightarrow> response option" where
  "check_unknown pathname roleKey =
     (if roleKey = ''unknown'' \<and> pathname \<noteq> ''/unknown'' then Some (redirect302 ''/unknown'')
      else None)"

text \<open>Lines 172 to 193 of \<open>src/middleware.ts\<close>: the root path.\<close>

definition root_dispatch :: "string \<Rightarrow> string \<Rightarrow> bool \<Rightarrow> response option" where
  "root_dispatch pathname roleKey isGuruWali =
     (if pathname = ''/'' then
        Some (if roleKey = ''admin'' then redirect302 ''/dashboard''
              else if roleKey = ''student'' then redirect302 ''/siswa''
              else if roleKey = ''teacher'' then redirect302 ''/guru''
              else if isGuruWali then redirect302 ''/guruwali''
              else if roleKey = ''parent'' then redirect302 ''/orangtua''
              else if roleKey = ''unknown'' then redirect302 ''/unknown''
              else redirect302 ''/unknown'')
      else None)"

definition role_guard :: "string \<Rightarrow> string \<Rightarrow> bool \<Rightarrow> response" where
  "role_guard pathname roleKey hasGuruWaliFlag =
     (let isGuruWali = (roleKey = ''guruwali'' \<or> hasGuruWaliFlag)
      in case check_dashboard pathname roleKey of Some r \<Rightarrow> r | None \<Rightarrow>
        (case check_siswa pathname roleKey of Some r \<Rightarrow> r | None \<Rightarrow>
        (case check_guru pathname roleKey isGuruWali of Some r \<Rightarrow> r | None \<Rightarrow>
        (case check_guruwali pathname roleKey isGuruWali of Some r \<Rightarrow> r | None \<Rightarrow>
        (case check_orangtua pathname roleKey of Some r \<Rightarrow> r | None \<Rightarrow>
        (case check_unknown pathname roleKey of Some r \<Rightarrow> r | None \<Rightarrow>
        (case root_dispatch pathname roleKey isGuruWali of Some r \<Rightarrow> r | None \<Rightarrow> Next)))))))"

text \<open>The profile of the user with a truthy \<open>roleid\<close>, and the name of that role.\<close>

definition resolved_profile :: "mw_env \<Rightarrow> string \<Rightarrow> (mw_profile \<times> int) option" where
  "resolved_profile env uid =
     (case data (run_query (mw_fault env ''user_profiles'')
                  (single (filter (\<lambda>p. mp_userid p = uid) (mw_profiles env)))) of
        None \<Rightarrow> None
      | Some profile \<Rightarrow>
          (case mp_roleid profile of
             None \<Rightarrow> None
           | Some roleid \<Rightarrow> if roleid = 0 then None else Some (profile, roleid)))"

definition role_name :: "mw_env \<Rightarrow> int \<Rightarrow> string option" where
  "role_name env roleid =
     map_option snd (data (run_query (mw_fault env ''role'')
                            (single (filter (\<lambda>r. fst r = roleid) (mw_roles env)))))"

definition login_redirect :: "mw_env \<Rightarrow> response" where
  "login_redirect env =
     (let originPath = sanitizeRedirectPath (mw_parse_url env)
                         (mw_pathname env @ mw_search env @ mw_hash env)
      in Redirect ''/login''
           (case originPath of
              None \<Rightarrow> None
            | Some p \<Rightarrow> if p \<noteq> ''/login'' then Some p else None)
           302)"

definition middleware :: "mw_env \<Rightarrow> response" where
  "middleware env =
     (let pathname = mw_pathname env;
          isApiRoute = startsWith pathname ''/api'';
          isPublicRoute = list_ex (startsWith pathname) publicRoutes
      in case mw_user env of
           None \<Rightarrow>
             (if isApiRoute then Json ''Unauthorized'' 401
              else if \<not> isPublicRoute \<and> pathname \<noteq> ''/'' then login_redirect env
              else Next)
         | Some uid \<Rightarrow>
             (if isPublicRoute then Next
              else (case resolved_profile env uid of
                      Some (profile, roleid) \<Rightarrow>
                        (let roleKey = roleKey_of (role_name env roleid);
                             hasGuruWaliFlag = (mp_is_guruwali profile = Some True \<or> roleid = 6
                                                \<or> roleKey = ''guruwali'')
                         in role_guard pathname roleKey hasGuruWaliFlag)
                    | None \<Rightarrow>
                        (if pathname \<noteq> ''/unknown'' then redirect302 ''/unknown'' else Next))))"

subsection \<open>The guard with the \<open>kepsek\<close> role (the second \<open>middleware.ts\<close> of the repository)\<close>

definition check_kepsek :: "string \<Rightarrow> string \<Rightarrow> response option" where
  "check_kepsek pathname roleKey =
     (if startsWith pathname ''/kepsek'' \<and> roleKey \<noteq> ''kepsek'' then
        Some (redirect302
          (if roleKey = ''admin'' then ''/dashboard''
           else if roleKey = ''teacher'' then ''/guru''
           else if roleKey = ''guruwali'' then ''/guruwali''
           else if roleKey = ''student'' then ''/siswa''
           else if roleKey = ''parent'' then ''/orangtua''
           else ''/unknown''))
      else None)"

text \<open>The root path: the landing page follows the guruwali \<^emph>\<open>role\<close>, not the
  \<open>is_guruwali\<close> flag.\<close>

definition root_dispatch_kepsek :: "string \<Rightarrow> string \<Rightarrow> bool \<Rightarrow> response option" where
  "root_dispatch_kepsek pathname roleKey isGuruWaliRole =
     (if pathname = ''/'' then
        Some (if roleKey = ''admin'' then redirect302 ''/dashboard''
              else if roleKey = ''student'' then redirect302 ''/siswa''
              else if isGuruWaliRole then redirect302 ''/guruwali''
              else if roleKey = ''kepsek'' then redirect302 ''/kepsek''
              else if roleKey = ''teacher'' then redirect302 ''/guru''
              else if roleKey = ''parent'' then redirect302 ''/orangtua''
              else if roleKey = ''unknown'' then redirect302 ''/unknown''
              else redirect302 ''/unknown'')
      else None)"

definition role_guard_kepsek :: "string \<Rightarrow> string \<Rightarrow> bool \<Rightarrow> bool \<Rightarrow> response" where
  "role_guard_kepsek pathname roleKey isGuruWaliRole canAccessGuruwali =
     (case check_dashboard pathname roleKey of Some r \<Rightarrow> r | None \<Rightarrow>
     (case check_siswa pathname roleKey of Some r \<Rightarrow> r | None \<Rightarrow>
     (case check_guru pathname roleKey canAccessGuruwali of Some r \<Rightarrow> r | None \<Rightarrow>
     (case check_guruwali pathname roleKey canAccessGuruwali of Some r \<Rightarrow> r | None \<Rightarrow>
     (case check_kepsek pathname roleKey of Some r \<Rightarrow> r | None \<Rightarrow>
     (case check_orangtua pathname roleKey of Some r \<Rightarrow> r | None \<Rightarrow>
     (case check_unknown pathname roleKey of Some r \<Rightarrow> r | None \<Rightarrow>
     (case root_dispatch_kepsek pathname roleKey isGuruWaliRole of Some r \<Rightarrow> r
      | None \<Rightarrow> Next))))))))"

definition middleware_kepsek :: "mw_env \<Rightarrow> response" where
  "middleware_kepsek env =
     (let pathname = mw_pathname env;
          isApiRoute = startsWith pathname ''/api'';
          isPublicRoute = list_ex (startsWith pathname) publicRoutes
      in case mw_user env of
           None \<Rightarrow>
             (if isApiRoute then Json ''Unauthorized'' 401
              else if \<not> isPublicRoute \<and> pathname \<noteq> ''/'' then login_redirect env
              else Next)
         | Some uid \<Rightarrow>
             (if isPublicRoute then Next
              else (case resolved_profile env uid of
                      Some (profile, roleid) \<Rightarrow>
                        (let roleKey = roleKey_of (role_name env roleid);
                             hasGuruWaliAccess = (mp_is_guruwali profile = Some True);
                             isGuruWaliRole = (roleKey = ''guruwali'' \<or> roleid = 6);
                             canAccessGuruwali = (isGuruWaliRole \<or> hasGuruWaliAccess)
                         in role_guard_kepsek pathname roleKey isGuruWaliRole canAccessGuruwali)
                    | None \<Rightarrow>
                        (if pathname \<noteq> ''/unknown'' then redirect302 ''/unknown'' else Next))))"

section \<open>The identity merge engine: \<open>api/teacher/students\<close>\<close>

text \<open>
  The curated alias table, a \<open>Map\<close> in insertion order: both user ids of the one verified
  group map to the same member list, whose first element is the primary id.
\<close>

definition VERIFIED_ALIASES :: "(string \<times> string list) list" where
  "VERIFIED_ALIASES =
     [(''6f07ae03-187e-4e25-a519-9f72f96f22ff'',
         [''6f07ae03-187e-4e25-a519-9f72f96f22ff'', ''eca885ad-1119-48ca-8efe-91efcbfb54b4'']),
      (''eca885ad-1119-48ca-8efe-91efcbfb54b4'',
         [''6f07ae03-187e-4e25-a519-9f72f96f22ff'', ''eca885ad-1119-48ca-8efe-91efcbfb54b4''])]"

text \<open>A \<open>Set\<close> is the list of its elements in insertion order, without repetition.\<close>

definition set_add :: "'a \<Rightarrow> 'a list \<Rightarrow> 'a list" where
  "set_add x s = (if x \<in> set s then s else s @ [x])"

definition new_Set :: "'a list \<Rightarrow> 'a list" where
  "new_Set xs = fold set_add xs []"

definition expand_step :: "string \<times> string list \<Rightarrow> string list \<Rightarrow> string list" where
  "expand_step = (\<lambda>(primary, lst) s.
     if list_ex (\<lambda>id. id \<in> set s) lst \<or> primary \<in> set s
     then fold set_add lst (set_add primary s)
     else s)"

definition expandWithVerifiedAliases :: "string list \<Rightarrow> string list" where
  "expandWithVerifiedAliases ids = fold expand_step VERIFIED_ALIASES (new_Set ids)"

text \<open>Per-user statistics \<open>{total, completed, last}\<close> (\<open>lastActivity\<close> in
  \<open>route.optimized.ts\<close>). \<open>last\<close> is optional; a value is truthy when it is present and not the empty
  string.\<close>

record stats =
  total' :: nat
  completed :: nat
  last' :: "string option"

record activity =
  act_userid :: "string option"
  act_status :: "string option"
  act_created_at :: "string option"


text \<open>\<open>String(a.created_at)\<close>.\<close>

definition String_of :: "string option \<Rightarrow> string" where
  "String_of v = (case v of None \<Rightarrow> ''null'' | Some s \<Rightarrow> s)"

text \<open>Lines 160 to 170: the consolidation of the activity rows into \<open>byUser\<close>, an object
  whose entries keep their insertion order.\<close>

definition byUser_step :: "activity \<Rightarrow> (string \<times> stats) list \<Rightarrow> (string \<times> stats) list" where
  "byUser_step a byUser =
     (case act_userid a of
        None \<Rightarrow> byUser
      | Some u \<Rightarrow>
          (if u = [] then byUser
           else (let cur = (case map_of byUser u of
                              None \<Rightarrow> \<lparr>total' = 0, completed = 0, last' = None\<rparr>
                            | Some c \<Rightarrow> c);
                     ts = String_of (act_created_at a)
                 in AList.update u
                      \<lparr>total' = total' cur + 1,
                       completed = (if act_status a = Some ''completed'' then completed cur + 1
                                    else completed cur),
                       last' = (case last' cur of
                                 None \<Rightarrow> Some ts
                               | Some l \<Rightarrow> if l = [] \<or> ts > l then Some ts else Some l)\<rparr>
                      byUser)))"

definition byUser_of :: "activity list \<Rightarrow> (string \<times> stats) list" where
  "byUser_of activityRows = fold byUser_step activityRows []"

text \<open>The update of \<open>last\<close> in both aggregation passes:
  \<open>if (!agg.last || (stats.last && stats.last > agg.last)) agg.last = stats.last\<close>.\<close>

definition merge_last :: "string option \<Rightarrow> string option \<Rightarrow> string option" where
  "merge_last cur new =
     (case cur of
        None \<Rightarrow> new
      | Some c \<Rightarrow>
          (if c = [] then new
           else (case new of
                   None \<Rightarrow> cur
                 | Some n \<Rightarrow> if n \<noteq> [] \<and> n > c then new else cur)))"

definition accumulate :: "stats option \<Rightarrow> stats \<Rightarrow> stats" where
  "accumulate slot st =
     (let cur = (case slot of None \<Rightarrow> \<lparr>total' = 0, completed = 0, last' = None\<rparr> | Some c \<Rightarrow> c)
      in \<lparr>total' = total' cur + total' st, completed = completed cur + completed st,
          last' = merge_last (last' cur) (last' st)\<rparr>)"

text \<open>Lines 172 to 191: \<open>aggregatedByUser\<close>. An aliased id adds its statistics to the entry
  of the first member of its group; any other id keeps its statistics as they are.\<close>

definition aggregate_step :: "string \<times> stats \<Rightarrow> (string \<rightharpoonup> stats) \<Rightarrow> (string \<rightharpoonup> stats)" where
  "aggregate_step = (\<lambda>(userid, st) agg.
     case map_of VERIFIED_ALIASES userid of
       Some verifiedAliases \<Rightarrow>
         (let primaryUserId = (case verifiedAliases of [] \<Rightarrow> ''undefined'' | p # _ \<Rightarrow> p)
          in agg(primaryUserId \<mapsto> accumulate (agg primaryUserId) st))
     | None \<Rightarrow> agg(userid \<mapsto> st))"

definition aggregatedByUser :: "(string \<times> stats) list \<Rightarrow> (string \<rightharpoonup> stats)" where
  "aggregatedByUser byUser = fold aggregate_step byUser Map.empty"

text \<open>Lines 459 to 476, in \<open>route.optimized.ts\<close>: \<open>aggregatedStats\<close>, where every id adds
  its statistics to the entry of \<open>verifiedAliases?.[0] || userId\<close>.\<close>

definition aggregate_stats_step :: "string \<times> stats \<Rightarrow> (string \<rightharpoonup> stats) \<Rightarrow> (string \<rightharpoonup> stats)" where
  "aggregate_stats_step = (\<lambda>(userId, st) agg.
     let primaryUserId =
           (case map_of VERIFIED_ALIASES userId of
              Some (p # _) \<Rightarrow> if p \<noteq> [] then p else userId
            | _ \<Rightarrow> userId)
     in agg(primaryUserId \<mapsto> accumulate (agg primaryUserId) st))"

definition aggregatedStats :: "(string \<times> stats) list \<Rightarrow> (string \<rightharpoonup> stats)" where
  "aggregatedStats activityStats = fold aggregate_stats_step activityStats Map.empty"

section \<open>Scoped student listings\<close>

text \<open>
  Rows of \<open>user_profiles\<close> with the columns the two teacher handlers read, and the
  \<open>studentMap\<close> both of them fill: a \<open>Map\<close> from user id to row, where \<open>set\<close> on a
  present key replaces the value in place and on a new key appends.
\<close>

record user_profile =
  userid :: string
  username :: "string option"
  email :: "string option"
  roleid :: "int option"
  kelas :: "string option"
  guruwali_userid :: "string option"
  is_guruwali :: "bool option"





subsection \<open>\<open>api/teacher/students/route.ts\<close>\<close>


text \<open>What the Admin Auth API returns for a user: the email, the two metadata objects
  (each with \<open>full_name\<close> and \<open>name\<close>) and the identities.\<close>

record identity_data =
  id_full_name :: "string option"
  id_name :: "string option"
  id_given_name :: "string option"
  id_family_name :: "string option"
  id_email :: "string option"

record auth_user =
  au_email :: "string option"
  au_user_metadata :: "(string option \<times> string option) option"
  au_raw_user_meta_data :: "(string option \<times> string option) option"
  au_identities :: "identity_data list option"

























subsection \<open>The daily inactive report\<close>

text \<open>
  A row of \<open>aktivitas\<close> with the columns the report selects; \<open>created_at\<close> is the instant
  of the timestamp, in milliseconds since the epoch.
\<close>

record report_activity =
  ra_userid :: "string option"
  ra_activityid :: string
  ra_activityname :: "string option"
  ra_created_at :: "int option"




















section \<open>The submission gate: \<open>src/app/api/kegiatan/[kegiatanid]/route.ts\<close>\<close>

text \<open>
  Instants are milliseconds since the epoch (\<open>new Date()\<close>). A civil date, the value of
  the \<open>submitted_date\<close> column and of the \<open>en-CA\<close> formatting \<open>YYYY-MM-DD\<close>, is
  represented by its day number, the count of days since 1970-01-01 on the calendar of
  the zone. \<open>Asia/Jakarta\<close> is seven hours ahead of UTC, without daylight saving.
\<close>

definition JAKARTA_OFFSET_MS :: int where
  "JAKARTA_OFFSET_MS = 7 * 3600 * 1000"

definition MS_PER_DAY :: int where
  "MS_PER_DAY = 24 * 3600 * 1000"

definition todayInJakarta :: "int \<Rightarrow> int" where
  "todayInJakarta now = (now + JAKARTA_OFFSET_MS) div MS_PER_DAY"

record window_row =
  w_id :: int
  is_open :: "bool option"

record aktivitas_row =
  activityid :: string
  a_kegiatanid :: "string option"
  a_userid :: "string option"
  submitted_date :: "int option"
  a_created_at :: "string option"

record kegiatan_row =
  kegiatanid :: string
  kegiatanname :: "string option"
  k_created_at :: "string option"

text \<open>The joined \<open>role:roleid(rolename)\<close> of a profile row: null, an object, or an array
  of objects.\<close>

datatype linked_role =
    RoleNull
  | RoleObject "string option"
  | RoleArray "string option list"

record profile_join =
  pj_userid :: string
  pj_role :: linked_role

text \<open>
  Everything a request to the handler reads. \<open>categories\<close> is the outcome of the block
  that loads the task's categories and fields (it throws, or yields the categories);
  none of the gate's decisions reads it.
\<close>

record 'c kegiatan_env =
  auth_user :: "string option"
  user_profiles :: "profile_join list"
  submission_window :: "window_row list"
  aktivitas :: "aktivitas_row list"
  kegiatan :: "kegiatan_row list"
  fault :: "string \<Rightarrow> pg_error option"
  categories :: "pg_error + 'c"
  now :: int

record submission_status =
  canSubmit :: bool
  lastSubmittedAt :: "string option"

datatype 'c kegiatan_response =
    JsonError string nat
  | JsonData "kegiatan_row option" 'c submission_status

definition getCurrentRoleName :: "'c kegiatan_env \<Rightarrow> string option \<times> string option" where
  "getCurrentRoleName env =
     (case auth_user env of
        None \<Rightarrow> (None, None)
      | Some uid \<Rightarrow>
          (let profile = data (run_query (fault env ''user_profiles'')
                 (maybeSingle (filter (\<lambda>p. pj_userid p = uid) (user_profiles env))));
               roleName =
                 (case profile of
                    None \<Rightarrow> None
                  | Some p \<Rightarrow>
                      (case pj_role p of
                         RoleNull \<Rightarrow> None
                       | RoleObject n \<Rightarrow> n
                       | RoleArray [] \<Rightarrow> None
                       | RoleArray (n # _) \<Rightarrow> n))
           in (Some uid, roleName)))"

definition isSubmissionWindowOpen :: "'c kegiatan_env \<Rightarrow> pg_error + bool" where
  "isSubmissionWindowOpen env =
     (let r = run_query (fault env ''submission_window'')
                (maybeSingle (filter (\<lambda>w. w_id w = 1) (submission_window env)))
      in case error r of
           Some e \<Rightarrow>
             (if code e \<noteq> ''PGRST116'' then Inl e
              else Inr (case data r of None \<Rightarrow> False
                        | Some w \<Rightarrow> (case is_open w of None \<Rightarrow> False | Some b \<Rightarrow> b)))
         | None \<Rightarrow>
             Inr (case data r of None \<Rightarrow> False
                  | Some w \<Rightarrow> (case is_open w of None \<Rightarrow> False | Some b \<Rightarrow> b)))"

text \<open>Lines 333 to 357: the once-per-day check, made for a student only.\<close>

definition existingToday :: "'c kegiatan_env \<Rightarrow> string \<Rightarrow> string \<Rightarrow> aktivitas_row query_result" where
  "existingToday env kid uid =
     run_query (fault env ''aktivitas'')
       (maybeSingle (filter (\<lambda>a. a_kegiatanid a = Some kid \<and> a_userid a = Some uid
                              \<and> submitted_date a = Some (todayInJakarta (now env)))
                      (aktivitas env)))"

definition submissionStatus :: "'c kegiatan_env \<Rightarrow> string \<Rightarrow> string option \<Rightarrow> string option
    \<Rightarrow> pg_error + submission_status" where
  "submissionStatus env kid userId roleName =
     (let initial = \<lparr>canSubmit = True, lastSubmittedAt = None\<rparr>
      in case userId of
           None \<Rightarrow> Inr initial
         | Some uid \<Rightarrow>
             (if roleName = Some ''student'' \<and> uid \<noteq> [] then
                (let r = existingToday env kid uid;
                     status = (case data r of
                                 Some row \<Rightarrow> \<lparr>canSubmit = False, lastSubmittedAt = a_created_at row\<rparr>
                               | None \<Rightarrow> initial)
                 in case error r of
                      Some e \<Rightarrow> (if code e \<noteq> ''PGRST116'' then Inl e else Inr status)
                    | None \<Rightarrow> Inr status)
              else Inr initial))"

definition caught :: "pg_error \<Rightarrow> 'c kegiatan_response" where
  "caught e = JsonError (case message e of Some m \<Rightarrow> m | None \<Rightarrow> ''Unexpected error'') 500"

definition WINDOW_CLOSED :: string where
  "WINDOW_CLOSED = ''Pengumpulan belum dibuka. Silakan hubungi admin.''"

definition fetchKegiatan :: "'c kegiatan_env \<Rightarrow> string \<Rightarrow> pg_error + kegiatan_row option" where
  "fetchKegiatan env kid =
     (let r = run_query (fault env ''kegiatan'')
                (single (filter (\<lambda>k. kegiatanid k = kid) (kegiatan env)))
      in case error r of
           Some e \<Rightarrow> Inl e
         | None \<Rightarrow> Inr (data r))"

definition GET :: "'c kegiatan_env \<Rightarrow> string \<Rightarrow> 'c kegiatan_response" where
  "GET env kid =
     (let (userId, roleName) = getCurrentRoleName env
      in case (if roleName = Some ''student'' then isSubmissionWindowOpen env else Inr True) of
           Inl e \<Rightarrow> caught e
         | Inr opened \<Rightarrow>
             (if \<not> opened then JsonError WINDOW_CLOSED 403
              else (case fetchKegiatan env kid of
                      Inl e \<Rightarrow> caught e
                    | Inr keg \<Rightarrow>
                        (case categories env of
                           Inl e \<Rightarrow> caught e
                         | Inr cats \<Rightarrow>
                             (case submissionStatus env kid userId roleName of
                                Inl e \<Rightarrow> caught e
                              | Inr st \<Rightarrow> JsonData keg cats st)))))"

text \<open>
  The schema's constraints on \<open>aktivitas\<close>: \<open>activityid\<close> is the primary key, and
  \<open>UNIQUE(kegiatanid, userid, submitted_date)\<close> allows one submission per day per task
  (rows with a null in the key are never duplicates of each other).
\<close>

definition daily_unique :: "aktivitas_row list \<Rightarrow> bool" where
  "daily_unique rows =
     (distinct (map activityid rows)
      \<and> (\<forall>a \<in> set rows. \<forall>b \<in> set rows.
            a_kegiatanid a \<noteq> None \<and> a_userid a \<noteq> None \<and> submitted_date a \<noteq> None
            \<and> a_kegiatanid a = a_kegiatanid b \<and> a_userid a = a_userid b
            \<and> submitted_date a = submitted_date b
            \<longrightarrow> a = b))"


section \<open>Properties of the route guard\<close>

lemma root_not_public: "\<not> list_ex (startsWith ''/'') publicRoutes"
  by (simp add: publicRoutes_def startsWith_def)

lemma root_checks:
  "check_dashboard ''/'' rk = None" "check_siswa ''/'' rk = None" "check_guru ''/'' rk g = None"
  "check_guruwali ''/'' rk g = None" "check_orangtua ''/'' rk = None" "check_kepsek ''/'' rk = None"
  by (simp_all add: check_dashboard_def check_siswa_def check_guru_def check_guruwali_def
      check_orangtua_def check_kepsek_def startsWith_def)

text \<open>
  C1, as the code has it. For an authenticated actor requesting \<open>/\<close> the guard always
  answers with a 302 redirect to exactly one landing route, a function of the resolved
  role: admin to \<open>/dashboard\<close>, student to \<open>/siswa\<close>, teacher to \<open>/guru\<close> (also when the
  teacher holds the \<open>is_guruwali\<close> flag), the role \<open>unknown\<close>, an unresolved profile and
  every unmatched role to \<open>/unknown\<close>, the guruwali role to \<open>/guruwali\<close>, parent to
  \<open>/orangtua\<close>. The two versions of the guard differ only off the closed role set: the
  guard of \<open>src/middleware.ts\<close> sends a flag holder that is none of admin, student, teacher
  or unknown to \<open>/guruwali\<close>; the guard with the \<open>kepsek\<close> role reads the role only (name
  \<open>guruwali\<close> or role id 6, tested before teacher) and has the \<open>/kepsek\<close> landing route.
\<close>

theorem root_dispatch_total:
  assumes auth: "mw_user env = Some uid" and root: "mw_pathname env = ''/''"
  shows "middleware env =
           Redirect
             (case resolved_profile env uid of
                None \<Rightarrow> ''/unknown''
              | Some (profile, rid) \<Rightarrow>
                  (let roleKey = roleKey_of (role_name env rid)
                   in if roleKey = ''admin'' then ''/dashboard''
                      else if roleKey = ''student'' then ''/siswa''
                      else if roleKey = ''teacher'' then ''/guru''
                      else if roleKey = ''unknown'' then ''/unknown''
                      else if roleKey = ''guruwali'' \<or> rid = 6 \<or> mp_is_guruwali profile = Some True
                        then ''/guruwali''
                      else if roleKey = ''parent'' then ''/orangtua''
                      else ''/unknown''))
             None 302
       \<and> middleware_kepsek env =
           Redirect
             (case resolved_profile env uid of
                None \<Rightarrow> ''/unknown''
              | Some (profile, rid) \<Rightarrow>
                  (let roleKey = roleKey_of (role_name env rid)
                   in if roleKey = ''admin'' then ''/dashboard''
                      else if roleKey = ''student'' then ''/siswa''
                      else if roleKey = ''unknown'' then ''/unknown''
                      else if roleKey = ''guruwali'' \<or> rid = 6 then ''/guruwali''
                      else if roleKey = ''kepsek'' then ''/kepsek''
                      else if roleKey = ''teacher'' then ''/guru''
                      else if roleKey = ''parent'' then ''/orangtua''
                      else ''/unknown''))
             None 302"
proof (cases "resolved_profile env uid")
  case None
  with auth root show ?thesis
    by (simp add: middleware_def middleware_kepsek_def root_not_public redirect302_def)
next
  case (Some pr)
  obtain profile rid where pr: "pr = (profile, rid)" by (cases pr)
  have one: "role_guard ''/'' rk flag =
      Redirect (if rk = ''admin'' then ''/dashboard''
                else if rk = ''student'' then ''/siswa''
                else if rk = ''teacher'' then ''/guru''
                else if rk = ''unknown'' then ''/unknown''
                else if rk = ''guruwali'' \<or> flag then ''/guruwali''
                else if rk = ''parent'' then ''/orangtua''
                else ''/unknown'') None 302" for rk flag
    by (simp add: role_guard_def root_checks check_unknown_def root_dispatch_def redirect302_def)
  have two: "role_guard_kepsek ''/'' rk isRole can =
      Redirect (if rk = ''admin'' then ''/dashboard''
                else if rk = ''student'' then ''/siswa''
                else if rk = ''unknown'' then ''/unknown''
                else if isRole then ''/guruwali''
                else if rk = ''kepsek'' then ''/kepsek''
                else if rk = ''teacher'' then ''/guru''
                else if rk = ''parent'' then ''/orangtua''
                else ''/unknown'') None 302" for rk isRole can
    by (simp add: role_guard_kepsek_def root_checks check_unknown_def root_dispatch_kepsek_def
        redirect302_def)
  from auth root Some pr show ?thesis
    by (simp add: middleware_def middleware_kepsek_def root_not_public one two Let_def)
qed

theorem root_dispatch_total_witness:
  "(let env = \<lparr>mw_user = Some ''w1'', mw_pathname = ''/'', mw_search = [], mw_hash = [],
        mw_profiles = [\<lparr>mp_userid = ''w1'', mp_roleid = Some 6, mp_is_guruwali = None\<rparr>],
        mw_roles = [(1, ''admin''), (2, ''teacher''), (3, ''parent''), (4, ''student''),
                    (5, ''siswa''), (6, ''guruwali'')],
        mw_fault = (\<lambda>t. None), mw_parse_url = (\<lambda>u. None)\<rparr>
    in middleware env = Redirect ''/guruwali'' None 302
       \<and> middleware_kepsek env = Redirect ''/guruwali'' None 302)"
  (is "Let ?env _")
  using root_dispatch_total [of ?env "''w1''"]
  by (simp add: resolved_profile_def role_name_def run_query_def single_def roleKey_of_def
      toLowerCase_def)

text \<open>
  C1 as stated fails: a teacher (role id 2) holding the supervision flag is sent to the
  teacher home \<open>/guru\<close> by both versions of the guard, not to the supervisor home.
\<close>

theorem teacher_flag_lands_on_guru:
  "middleware
     \<lparr>mw_user = Some ''t1'', mw_pathname = ''/'', mw_search = [], mw_hash = [],
      mw_profiles = [\<lparr>mp_userid = ''t1'', mp_roleid = Some 2, mp_is_guruwali = Some True\<rparr>],
      mw_roles = [(1, ''admin''), (2, ''teacher''), (3, ''parent''), (4, ''student''),
                  (5, ''siswa''), (6, ''guruwali'')],
      mw_fault = (\<lambda>t. None), mw_parse_url = (\<lambda>u. None)\<rparr>
     = Redirect ''/guru'' None 302
   \<and> middleware_kepsek
     \<lparr>mw_user = Some ''t1'', mw_pathname = ''/'', mw_search = [], mw_hash = [],
      mw_profiles = [\<lparr>mp_userid = ''t1'', mp_roleid = Some 2, mp_is_guruwali = Some True\<rparr>],
      mw_roles = [(1, ''admin''), (2, ''teacher''), (3, ''parent''), (4, ''student''),
                  (5, ''siswa''), (6, ''guruwali'')],
      mw_fault = (\<lambda>t. None), mw_parse_url = (\<lambda>u. None)\<rparr>
     = Redirect ''/guru'' None 302"
  by (simp add: middleware_def middleware_kepsek_def startsWith_def publicRoutes_def
      resolved_profile_def role_name_def run_query_def single_def roleKey_of_def toLowerCase_def
      role_guard_def role_guard_kepsek_def check_dashboard_def check_siswa_def check_guru_def
      check_guruwali_def check_orangtua_def check_kepsek_def check_unknown_def root_dispatch_def
      root_dispatch_kepsek_def redirect302_def)

lemma guru_prefix_facts:
  assumes "startsWith p ''/guru''"
  shows "\<not> list_ex (startsWith p) publicRoutes"
    and "check_dashboard p rk = None" and "check_siswa p rk = None"
proof -
  from assms obtain s where "p = ''/guru'' @ s"
    by (auto simp: startsWith_def prefix_def)
  then show "\<not> list_ex (startsWith p) publicRoutes"
    and "check_dashboard p rk = None" and "check_siswa p rk = None"
    by (simp_all add: publicRoutes_def startsWith_def check_dashboard_def check_siswa_def)
qed

text \<open>
  C2, as the code has it. Route protection is the plain string-prefix test: for an actor
  that is neither a teacher nor guruwali-capable, every path that starts with the characters
  \<open>/guru\<close>, whatever follows them (\<open>/gurux\<close>, \<open>/guruwali/...\<close>), is caught by the \<open>/guru\<close>
  check, and the guard answers with the redirect of that check: to \<open>/dashboard\<close> for an
  admin, \<open>/siswa\<close> for a student, \<open>/orangtua\<close> for a parent and \<open>/unknown\<close> for any other
  role; both versions of the guard agree.
\<close>

theorem guru_check_plain_prefix:
  assumes auth: "mw_user env = Some uid"
      and prof: "resolved_profile env uid = Some (profile, rid)"
      and path: "startsWith (mw_pathname env) ''/guru''"
      and role: "roleKey_of (role_name env rid) \<notin> {''teacher'', ''guruwali''}"
      and flag: "mp_is_guruwali profile \<noteq> Some True" "rid \<noteq> 6"
  shows "check_guru (mw_pathname env) (roleKey_of (role_name env rid)) False \<noteq> None
       \<and> middleware env =
           Redirect (let roleKey = roleKey_of (role_name env rid)
                     in if roleKey = ''admin'' then ''/dashboard''
                        else if roleKey = ''student'' then ''/siswa''
                        else if roleKey = ''parent'' then ''/orangtua''
                        else ''/unknown'') None 302
       \<and> middleware_kepsek env = middleware env"
proof -
  define rk where "rk = roleKey_of (role_name env rid)"
  define p where "p = mw_pathname env"
  define r where "r = Redirect (if rk = ''admin'' then ''/dashboard''
                        else if rk = ''student'' then ''/siswa''
                        else if rk = ''parent'' then ''/orangtua''
                        else ''/unknown'') None 302"
  from role have rk: "rk \<noteq> ''teacher''" "rk \<noteq> ''guruwali''"
    by (simp_all add: rk_def)
  from path have p: "startsWith p ''/guru''"
    by (simp add: p_def)
  have fires: "check_guru p rk False = Some r"
    using rk p by (simp add: check_guru_def redirect302_def r_def)
  have g1: "role_guard p rk False = r"
    using rk by (simp add: role_guard_def guru_prefix_facts [OF p] fires)
  have g2: "role_guard_kepsek p rk False False = r"
    by (simp add: role_guard_kepsek_def guru_prefix_facts [OF p] fires)
  have m1: "middleware env = r"
    using auth prof flag rk guru_prefix_facts(1) [OF p]
    by (simp add: middleware_def Let_def g1 flip: rk_def p_def)
  have m2: "middleware_kepsek env = r"
    using auth prof flag rk guru_prefix_facts(1) [OF p]
    by (simp add: middleware_kepsek_def Let_def g2 flip: rk_def p_def)
  from fires m1 m2 show ?thesis
    by (simp add: r_def Let_def flip: rk_def p_def)
qed

theorem guru_check_plain_prefix_witness:
  "(let env = \<lparr>mw_user = Some ''p1'', mw_pathname = ''/guruwali/siswa'', mw_search = [], mw_hash = [],
        mw_profiles = [\<lparr>mp_userid = ''p1'', mp_roleid = Some 3, mp_is_guruwali = Some False\<rparr>],
        mw_roles = [(1, ''admin''), (2, ''teacher''), (3, ''parent''), (4, ''student''),
                    (5, ''siswa''), (6, ''guruwali'')],
        mw_fault = (\<lambda>t. None), mw_parse_url = (\<lambda>u. None)\<rparr>
    in check_guru (mw_pathname env) ''parent'' False \<noteq> None
       \<and> middleware env = Redirect ''/orangtua'' None 302
       \<and> middleware_kepsek env = Redirect ''/orangtua'' None 302)"
  (is "Let ?env _")
proof -
  have prof: "resolved_profile ?env ''p1''
      = Some (\<lparr>mp_userid = ''p1'', mp_roleid = Some 3, mp_is_guruwali = Some False\<rparr>, 3)"
    by (simp add: resolved_profile_def run_query_def single_def)
  have rk: "roleKey_of (role_name ?env 3) = ''parent''"
    by (simp add: role_name_def run_query_def single_def roleKey_of_def toLowerCase_def)
  show ?thesis
    using guru_check_plain_prefix [of ?env "''p1''", OF _ prof]
    by (simp add: rk startsWith_def)
qed

text \<open>
  C2 as stated fails: a student requesting the sibling segment \<open>/gurux\<close> is redirected by
  the \<open>/guru\<close> check instead of passing, and the \<open>/guru\<close> check fires on a path under
  \<open>/guruwali\<close>.
\<close>

theorem guru_matches_sibling_segment:
  "middleware
     \<lparr>mw_user = Some ''s1'', mw_pathname = ''/gurux'', mw_search = [], mw_hash = [],
      mw_profiles = [\<lparr>mp_userid = ''s1'', mp_roleid = Some 4, mp_is_guruwali = None\<rparr>],
      mw_roles = [(1, ''admin''), (2, ''teacher''), (3, ''parent''), (4, ''student''),
                  (5, ''siswa''), (6, ''guruwali'')],
      mw_fault = (\<lambda>t. None), mw_parse_url = (\<lambda>u. None)\<rparr>
     = Redirect ''/siswa'' None 302
   \<and> middleware_kepsek
     \<lparr>mw_user = Some ''s1'', mw_pathname = ''/gurux'', mw_search = [], mw_hash = [],
      mw_profiles = [\<lparr>mp_userid = ''s1'', mp_roleid = Some 4, mp_is_guruwali = None\<rparr>],
      mw_roles = [(1, ''admin''), (2, ''teacher''), (3, ''parent''), (4, ''student''),
                  (5, ''siswa''), (6, ''guruwali'')],
      mw_fault = (\<lambda>t. None), mw_parse_url = (\<lambda>u. None)\<rparr>
     = Redirect ''/siswa'' None 302
   \<and> check_guru ''/guruwali/siswa'' ''student'' False = Some (Redirect ''/siswa'' None 302)"
  by (simp add: middleware_def middleware_kepsek_def startsWith_def publicRoutes_def
      resolved_profile_def role_name_def run_query_def single_def roleKey_of_def toLowerCase_def
      role_guard_def role_guard_kepsek_def check_dashboard_def check_siswa_def check_guru_def
      check_guruwali_def check_orangtua_def check_kepsek_def check_unknown_def root_dispatch_def
      root_dispatch_kepsek_def redirect302_def)

lemma api_prefix_facts:
  assumes "startsWith p ''/api''"
  shows "\<not> list_ex (startsWith p) publicRoutes" and "p \<noteq> ''/unknown''" and "p \<noteq> ''/''"
    and "check_dashboard p rk = None" and "check_siswa p rk = None" and "check_guru p rk g = None"
    and "check_guruwali p rk g = None" and "check_orangtua p rk = None" and "check_kepsek p rk = None"
proof -
  from assms obtain s where "p = ''/api'' @ s"
    by (auto simp: startsWith_def prefix_def)
  then show "\<not> list_ex (startsWith p) publicRoutes" and "p \<noteq> ''/unknown''" and "p \<noteq> ''/''"
    and "check_dashboard p rk = None" and "check_siswa p rk = None" and "check_guru p rk g = None"
    and "check_guruwali p rk g = None" and "check_orangtua p rk = None" and "check_kepsek p rk = None"
    by (simp_all add: publicRoutes_def startsWith_def check_dashboard_def check_siswa_def
        check_guru_def check_guruwali_def check_orangtua_def check_kepsek_def)
qed

text \<open>
  The outcomes of the guard on a path with the prefix \<open>/api\<close>: without an authenticated
  actor the JSON record \<open>{error: "Unauthorized"}\<close> with status 401; with an authenticated
  actor whose profile is unresolved, or whose role is \<open>unknown\<close>, a 302 redirect to
  \<open>/unknown\<close>; with any other resolved role the request goes on. The guard has no 403
  outcome.
\<close>

lemma api_route_outcomes:
  assumes api: "startsWith (mw_pathname env) ''/api''"
  shows "(mw_user env = None
            \<longrightarrow> middleware env = Json ''Unauthorized'' 401
              \<and> middleware_kepsek env = Json ''Unauthorized'' 401)
       \<and> (mw_user env = Some uid \<and> resolved_profile env uid = None
            \<longrightarrow> middleware env = Redirect ''/unknown'' None 302
              \<and> middleware_kepsek env = Redirect ''/unknown'' None 302)
       \<and> (mw_user env = Some uid \<and> resolved_profile env uid = Some (profile, rid)
            \<and> roleKey_of (role_name env rid) = ''unknown''
            \<longrightarrow> middleware env = Redirect ''/unknown'' None 302
              \<and> middleware_kepsek env = Redirect ''/unknown'' None 302)
       \<and> (mw_user env = Some uid \<and> resolved_profile env uid = Some (profile, rid)
            \<and> roleKey_of (role_name env rid) \<noteq> ''unknown''
            \<longrightarrow> middleware env = Next \<and> middleware_kepsek env = Next)"
proof -
  note f = api_prefix_facts [OF api]
  have g1: "role_guard (mw_pathname env) rk flag
      = (if rk = ''unknown'' then Redirect ''/unknown'' None 302 else Next)" for rk flag
    by (simp add: role_guard_def f check_unknown_def root_dispatch_def redirect302_def)
  have g2: "role_guard_kepsek (mw_pathname env) rk a b
      = (if rk = ''unknown'' then Redirect ''/unknown'' None 302 else Next)" for rk a b
    by (simp add: role_guard_kepsek_def f check_unknown_def root_dispatch_kepsek_def redirect302_def)
  show ?thesis
    using api by (simp add: middleware_def middleware_kepsek_def f g1 g2 redirect302_def Let_def)
qed

text \<open>
  C3. The guard answers an API-shaped request without an actor with the JSON record and
  status 401 (the lemma above), but it does not keep API-shaped requests free of redirects:
  an authenticated actor without a profile row who requests \<open>/api/kegiatan\<close> receives a 302
  redirect to \<open>/unknown\<close> from both versions of the guard, where the claim asks for a
  structured error with status 403. The test \<open>isApiRoute\<close> is made in the unauthenticated
  branch only.
\<close>

theorem api_unresolved_redirects:
  "middleware
     \<lparr>mw_user = Some ''n1'', mw_pathname = ''/api/kegiatan'', mw_search = [], mw_hash = [],
      mw_profiles = [],
      mw_roles = [(1, ''admin''), (2, ''teacher''), (3, ''parent''), (4, ''student''),
                  (5, ''siswa''), (6, ''guruwali'')],
      mw_fault = (\<lambda>t. None), mw_parse_url = (\<lambda>u. None)\<rparr>
     = Redirect ''/unknown'' None 302
   \<and> middleware_kepsek
     \<lparr>mw_user = Some ''n1'', mw_pathname = ''/api/kegiatan'', mw_search = [], mw_hash = [],
      mw_profiles = [],
      mw_roles = [(1, ''admin''), (2, ''teacher''), (3, ''parent''), (4, ''student''),
                  (5, ''siswa''), (6, ''guruwali'')],
      mw_fault = (\<lambda>t. None), mw_parse_url = (\<lambda>u. None)\<rparr>
     = Redirect ''/unknown'' None 302"
  by (simp add: middleware_def middleware_kepsek_def startsWith_def publicRoutes_def
      resolved_profile_def role_name_def run_query_def single_def roleKey_of_def toLowerCase_def
      role_guard_def role_guard_kepsek_def check_dashboard_def check_siswa_def check_guru_def
      check_guruwali_def check_orangtua_def check_kepsek_def check_unknown_def root_dispatch_def
      root_dispatch_kepsek_def redirect302_def)

section \<open>Properties of the scoped listings\<close>


































section \<open>Properties of the identity merge engine\<close>

lemma set_add_member [simp]: "x \<in> set s \<Longrightarrow> set_add x s = s"
  by (simp add: set_add_def)

lemma set_set_add [simp]: "set (set_add x s) = insert x (set s)"
  by (auto simp: set_add_def)

lemma distinct_set_add [simp]: "distinct s \<Longrightarrow> distinct (set_add x s)"
  by (simp add: set_add_def)

lemma fold_set_add_props:
  "distinct s \<Longrightarrow> distinct (fold set_add xs s) \<and> set (fold set_add xs s) = set xs \<union> set s"
  by (induction xs arbitrary: s) auto

lemma fold_set_add_absorb: "set xs \<subseteq> set s \<Longrightarrow> fold set_add xs s = s"
  by (induction xs arbitrary: s) auto

lemma fold_set_add_distinct:
  "distinct (s @ xs) \<Longrightarrow> fold set_add xs s = s @ xs"
proof (induction xs arbitrary: s)
  case Nil
  then show ?case by simp
next
  case (Cons x xs)
  then have "set_add x s = s @ [x]" by (simp add: set_add_def)
  with Cons.IH [of "s @ [x]"] Cons.prems show ?case by simp
qed

lemma new_Set_props: "distinct (new_Set xs)" "set (new_Set xs) = set xs"
  using fold_set_add_props [of "[]" xs] by (simp_all add: new_Set_def)

lemma new_Set_distinct: "distinct xs \<Longrightarrow> new_Set xs = xs"
  using fold_set_add_distinct [of "[]" xs] by (simp add: new_Set_def)

lemma expand_step_props:
  assumes "distinct s"
  shows "distinct (expand_step (primary, lst) s)"
    and "set (expand_step (primary, lst) s)
         = (if (\<exists>id \<in> set lst. id \<in> set s) \<or> primary \<in> set s
            then insert primary (set lst) \<union> set s else set s)"
  using assms fold_set_add_props [of "set_add primary s" lst]
  by (auto simp: expand_step_def list_ex_iff)

lemma expand_step_closed:
  assumes "(\<exists>id \<in> set lst. id \<in> set s) \<or> primary \<in> set s \<Longrightarrow> insert primary (set lst) \<subseteq> set s"
  shows "expand_step (primary, lst) s = s"
proof (cases "(\<exists>id \<in> set lst. id \<in> set s) \<or> primary \<in> set s")
  case True
  with assms have "primary \<in> set s" "set lst \<subseteq> set s" by auto
  then have "fold set_add lst (set_add primary s) = s"
    by (simp add: fold_set_add_absorb)
  with True show ?thesis by (simp add: expand_step_def list_ex_iff)
next
  case False
  then show ?thesis by (simp add: expand_step_def list_ex_iff)
qed

lemma expand_props:
  "distinct (expandWithVerifiedAliases ids)"
  "set (expandWithVerifiedAliases ids)
     = set ids \<union> (if ''6f07ae03-187e-4e25-a519-9f72f96f22ff'' \<in> set ids
                       \<or> ''eca885ad-1119-48ca-8efe-91efcbfb54b4'' \<in> set ids
                    then {''6f07ae03-187e-4e25-a519-9f72f96f22ff'', ''eca885ad-1119-48ca-8efe-91efcbfb54b4''}
                    else {})"
proof -
  let ?a = "''6f07ae03-187e-4e25-a519-9f72f96f22ff''" and ?b = "''eca885ad-1119-48ca-8efe-91efcbfb54b4''"
  let ?s1 = "expand_step (?a, [?a, ?b]) (new_Set ids)"
  have e: "expandWithVerifiedAliases ids = expand_step (?b, [?a, ?b]) ?s1"
    by (simp add: expandWithVerifiedAliases_def VERIFIED_ALIASES_def)
  have d1: "distinct ?s1" by (simp add: expand_step_props new_Set_props)
  have s1: "set ?s1 = set ids \<union> (if ?a \<in> set ids \<or> ?b \<in> set ids then {?a, ?b} else {})"
    by (auto simp: expand_step_props new_Set_props)
  show "distinct (expandWithVerifiedAliases ids)"
    unfolding e using d1 by (rule expand_step_props)
  show "set (expandWithVerifiedAliases ids)
     = set ids \<union> (if ?a \<in> set ids \<or> ?b \<in> set ids then {?a, ?b} else {})"
    unfolding e expand_step_props(2) [OF d1] s1 by auto
qed

text \<open>
  C9. Expanding twice is expanding once: \<open>expandWithVerifiedAliases\<close> applied to its own
  result returns that result, as the same list. The result contains the seed ids and is
  closed under the alias table: when the key or any member of an entry is in it, the key
  and all members are.
\<close>

theorem expand_idempotent:
  "expandWithVerifiedAliases (expandWithVerifiedAliases ids) = expandWithVerifiedAliases ids
   \<and> set ids \<subseteq> set (expandWithVerifiedAliases ids)
   \<and> (\<forall>(primary, members) \<in> set VERIFIED_ALIASES.
        (primary \<in> set (expandWithVerifiedAliases ids)
           \<or> (\<exists>id \<in> set members. id \<in> set (expandWithVerifiedAliases ids)))
        \<longrightarrow> primary \<in> set (expandWithVerifiedAliases ids)
            \<and> set members \<subseteq> set (expandWithVerifiedAliases ids))"
proof -
  let ?a = "''6f07ae03-187e-4e25-a519-9f72f96f22ff''" and ?b = "''eca885ad-1119-48ca-8efe-91efcbfb54b4''"
  let ?R = "expandWithVerifiedAliases ids"
  have closed: "?a \<in> set ?R \<or> ?b \<in> set ?R \<Longrightarrow> ?a \<in> set ?R \<and> ?b \<in> set ?R"
    unfolding expand_props(2) by (auto split: if_splits)
  have 1: "expand_step (?a, [?a, ?b]) ?R = ?R"
    by (rule expand_step_closed) (use closed in auto)
  have 2: "expand_step (?b, [?a, ?b]) ?R = ?R"
    by (rule expand_step_closed) (use closed in auto)
  have "expandWithVerifiedAliases ?R = ?R"
    unfolding expandWithVerifiedAliases_def [of ?R] new_Set_distinct [OF expand_props(1)]
    by (simp add: VERIFIED_ALIASES_def 1 2)
  moreover have "set ids \<subseteq> set ?R"
    unfolding expand_props(2) by auto
  moreover have "\<forall>(primary, members) \<in> set VERIFIED_ALIASES.
        (primary \<in> set ?R \<or> (\<exists>id \<in> set members. id \<in> set ?R))
        \<longrightarrow> primary \<in> set ?R \<and> set members \<subseteq> set ?R"
    using closed by (auto simp: VERIFIED_ALIASES_def)
  ultimately show ?thesis by blast
qed

theorem expand_idempotent_witness:
  "expandWithVerifiedAliases [''eca885ad-1119-48ca-8efe-91efcbfb54b4'', ''u-7'']
     = [''eca885ad-1119-48ca-8efe-91efcbfb54b4'', ''u-7'', ''6f07ae03-187e-4e25-a519-9f72f96f22ff'']
   \<and> expandWithVerifiedAliases
       [''eca885ad-1119-48ca-8efe-91efcbfb54b4'', ''u-7'', ''6f07ae03-187e-4e25-a519-9f72f96f22ff'']
     = [''eca885ad-1119-48ca-8efe-91efcbfb54b4'', ''u-7'', ''6f07ae03-187e-4e25-a519-9f72f96f22ff'']"
proof -
  have e: "expandWithVerifiedAliases [''eca885ad-1119-48ca-8efe-91efcbfb54b4'', ''u-7'']
     = [''eca885ad-1119-48ca-8efe-91efcbfb54b4'', ''u-7'', ''6f07ae03-187e-4e25-a519-9f72f96f22ff'']"
    by (simp add: expandWithVerifiedAliases_def VERIFIED_ALIASES_def new_Set_def set_add_def
        expand_step_def)
  show ?thesis
    using expand_idempotent [of "[''eca885ad-1119-48ca-8efe-91efcbfb54b4'', ''u-7'']"]
    unfolding e by simp
qed

lemma alias_lookup:
  "map_of VERIFIED_ALIASES u =
     (if u = ''6f07ae03-187e-4e25-a519-9f72f96f22ff'' \<or> u = ''eca885ad-1119-48ca-8efe-91efcbfb54b4''
      then Some [''6f07ae03-187e-4e25-a519-9f72f96f22ff'', ''eca885ad-1119-48ca-8efe-91efcbfb54b4'']
      else None)"
  by (simp add: VERIFIED_ALIASES_def)

lemma aggregate_step_eq:
  "aggregate_step (u, st) agg =
     (if u = ''6f07ae03-187e-4e25-a519-9f72f96f22ff'' \<or> u = ''eca885ad-1119-48ca-8efe-91efcbfb54b4''
      then agg(''6f07ae03-187e-4e25-a519-9f72f96f22ff''
                 \<mapsto> accumulate (agg ''6f07ae03-187e-4e25-a519-9f72f96f22ff'') st)
      else agg(u \<mapsto> st))"
  by (simp add: aggregate_step_def alias_lookup Let_def)

lemma aggregate_stats_step_eq:
  "aggregate_stats_step (u, st) agg =
     (if u = ''6f07ae03-187e-4e25-a519-9f72f96f22ff'' \<or> u = ''eca885ad-1119-48ca-8efe-91efcbfb54b4''
      then agg(''6f07ae03-187e-4e25-a519-9f72f96f22ff''
                 \<mapsto> accumulate (agg ''6f07ae03-187e-4e25-a519-9f72f96f22ff'') st)
      else agg(u \<mapsto> accumulate (agg u) st))"
  by (simp add: aggregate_stats_step_def alias_lookup Let_def)

lemma accumulate_None [simp]: "accumulate None st = st"
  by (cases st) (simp add: accumulate_def merge_last_def)

lemma merge_last_commute:
  assumes "(lx \<noteq> None \<and> ly \<noteq> None) \<or> (lx \<noteq> Some [] \<and> ly \<noteq> Some [])"
  shows "merge_last (merge_last c ly) lx = merge_last (merge_last c lx) ly"
  using assms
  by (cases c; cases lx; cases ly) (auto simp: merge_last_def split: if_splits)

lemma accumulate_commute:
  assumes "(last' sx \<noteq> None \<and> last' sy \<noteq> None) \<or> (last' sx \<noteq> Some [] \<and> last' sy \<noteq> Some [])"
  shows "accumulate (Some (accumulate slot sy)) sx = accumulate (Some (accumulate slot sx)) sy"
  using merge_last_commute [OF assms] by (simp add: accumulate_def Let_def add.commute add.left_commute)



lemma step_commute:
  assumes "fst x \<noteq> fst y"
    and "(last' (snd x) \<noteq> None \<and> last' (snd y) \<noteq> None)
         \<or> (last' (snd x) \<noteq> Some [] \<and> last' (snd y) \<noteq> Some [])"
  shows "aggregate_step x (aggregate_step y z) = aggregate_step y (aggregate_step x z)"
    and "aggregate_stats_step x (aggregate_stats_step y z)
         = aggregate_stats_step y (aggregate_stats_step x z)"
proof -
  let ?a = "''6f07ae03-187e-4e25-a519-9f72f96f22ff''" and ?b = "''eca885ad-1119-48ca-8efe-91efcbfb54b4''"
  obtain kx sx ky sy where xy: "x = (kx, sx)" "y = (ky, sy)"
    by (cases x, cases y) 
  from assms xy have c: "accumulate (Some (accumulate slot sy)) sx
                       = accumulate (Some (accumulate slot sx)) sy" for slot
    by (intro accumulate_commute) simp
  from assms(1) xy have ne: "kx \<noteq> ky" by simp
  have split: thesis
    if "kx = ?a \<or> kx = ?b \<Longrightarrow> ky = ?a \<or> ky = ?b \<Longrightarrow> thesis"
      and "kx = ?a \<or> kx = ?b \<Longrightarrow> ky \<noteq> ?a \<Longrightarrow> ky \<noteq> ?b \<Longrightarrow> thesis"
      and "kx \<noteq> ?a \<Longrightarrow> kx \<noteq> ?b \<Longrightarrow> ky = ?a \<or> ky = ?b \<Longrightarrow> thesis"
      and "kx \<noteq> ?a \<Longrightarrow> kx \<noteq> ?b \<Longrightarrow> ky \<noteq> ?a \<Longrightarrow> ky \<noteq> ?b \<Longrightarrow> thesis"
    for thesis
    using that by blast
  show "aggregate_step x (aggregate_step y z) = aggregate_step y (aggregate_step x z)"
  proof (rule split)
    assume "kx = ?a \<or> kx = ?b" "ky = ?a \<or> ky = ?b"
    then show ?thesis unfolding xy aggregate_step_eq by (simp add: c [of "z ?a"])
  next
    assume "kx = ?a \<or> kx = ?b" "ky \<noteq> ?a" "ky \<noteq> ?b"
    then show ?thesis unfolding xy aggregate_step_eq by (simp add: fun_eq_iff)
  next
    assume "kx \<noteq> ?a" "kx \<noteq> ?b" "ky = ?a \<or> ky = ?b"
    then show ?thesis unfolding xy aggregate_step_eq by (simp add: fun_eq_iff)
  next
    assume "kx \<noteq> ?a" "kx \<noteq> ?b" "ky \<noteq> ?a" "ky \<noteq> ?b"
    with ne show ?thesis unfolding xy aggregate_step_eq by (simp add: fun_eq_iff)
  qed
  show "aggregate_stats_step x (aggregate_stats_step y z)
         = aggregate_stats_step y (aggregate_stats_step x z)"
  proof (rule split)
    assume "kx = ?a \<or> kx = ?b" "ky = ?a \<or> ky = ?b"
    then show ?thesis unfolding xy aggregate_stats_step_eq by (simp add: c [of "z ?a"])
  next
    assume "kx = ?a \<or> kx = ?b" "ky \<noteq> ?a" "ky \<noteq> ?b"
    then show ?thesis unfolding xy aggregate_stats_step_eq by (simp add: fun_eq_iff)
  next
    assume "kx \<noteq> ?a" "kx \<noteq> ?b" "ky = ?a \<or> ky = ?b"
    then show ?thesis unfolding xy aggregate_stats_step_eq by (simp add: fun_eq_iff)
  next
    assume "kx \<noteq> ?a" "kx \<noteq> ?b" "ky \<noteq> ?a" "ky \<noteq> ?b"
    with ne show ?thesis unfolding xy aggregate_stats_step_eq by (simp add: fun_eq_iff)
  qed
qed

lemma distinct_keys_cases:
  assumes "distinct (map fst xs)" "x \<in> set xs" "y \<in> set xs"
  shows "x = y \<or> fst x \<noteq> fst y"
proof -
  from assms(1) have "inj_on fst (set xs)"
    by (simp add: distinct_map)
  with assms(2,3) show ?thesis
    by (auto dest: inj_onD)
qed

lemma aggregate_permuted:
  assumes keys: "distinct (map fst xs)"
      and perm: "mset ys = mset xs"
      and stamps: "(\<forall>e \<in> set xs. last' (snd e) \<noteq> None) \<or> (\<forall>e \<in> set xs. last' (snd e) \<noteq> Some [])"
  shows "aggregatedByUser ys = aggregatedByUser xs \<and> aggregatedStats ys = aggregatedStats xs"
proof -
  have c: "aggregate_step x (aggregate_step y z) = aggregate_step y (aggregate_step x z)
      \<and> aggregate_stats_step x (aggregate_stats_step y z)
         = aggregate_stats_step y (aggregate_stats_step x z)"
    if x: "x \<in> set xs" and y: "y \<in> set xs" for x y z
  proof (cases "x = y")
    case True
    then show ?thesis by simp
  next
    case False
    with distinct_keys_cases [OF keys x y] have ne: "fst x \<noteq> fst y" by simp
    from stamps x y have "(last' (snd x) \<noteq> None \<and> last' (snd y) \<noteq> None)
         \<or> (last' (snd x) \<noteq> Some [] \<and> last' (snd y) \<noteq> Some [])"
      by blast
    with ne show ?thesis
      by (intro conjI step_commute)
  qed
  have "fold aggregate_step xs Map.empty = fold aggregate_step ys Map.empty"
  proof (rule fold_permuted_eq [where P = "\<lambda>_. True"])
    show "mset xs = mset ys" using perm by simp
    show "aggregate_step x (aggregate_step y z) = aggregate_step y (aggregate_step x z)"
      if "x \<in> set xs" "y \<in> set xs" for x y z
      using c [OF that] by (rule conjunct1)
  qed (rule TrueI)+
  moreover have "fold aggregate_stats_step xs Map.empty = fold aggregate_stats_step ys Map.empty"
  proof (rule fold_permuted_eq [where P = "\<lambda>_. True"])
    show "mset xs = mset ys" using perm by simp
    show "aggregate_stats_step x (aggregate_stats_step y z)
         = aggregate_stats_step y (aggregate_stats_step x z)"
      if "x \<in> set xs" "y \<in> set xs" for x y z
      using c [OF that] by (rule conjunct2)
  qed (rule TrueI)+
  ultimately show ?thesis
    by (simp add: aggregatedByUser_def aggregatedStats_def)
qed


lemma byUser_step_shape:
  "byUser_step a al = al \<or> (\<exists>u v. byUser_step a al = AList.update u v al \<and> last' v \<noteq> None)"
proof (cases "act_userid a")
  case None
  then show ?thesis by (simp add: byUser_step_def)
next
  case (Some u)
  show ?thesis
  proof (cases "u = []")
    case True
    with Some show ?thesis by (simp add: byUser_step_def)
  next
    case False
    define cur where "cur = (case map_of al u of
                               None \<Rightarrow> \<lparr>total' = 0, completed = 0, last' = None\<rparr>
                             | Some c \<Rightarrow> c)"
    define v where "v = \<lparr>total' = total' cur + 1,
                       completed = (if act_status a = Some ''completed'' then completed cur + 1
                                    else completed cur),
                       last' = (case last' cur of
                                 None \<Rightarrow> Some (String_of (act_created_at a))
                               | Some l \<Rightarrow> if l = [] \<or> String_of (act_created_at a) > l
                                          then Some (String_of (act_created_at a)) else Some l)\<rparr>"
    have "last' v \<noteq> None"
      by (cases "last' cur") (simp_all add: v_def)
    moreover from Some False have "byUser_step a al = AList.update u v al"
      by (simp add: byUser_step_def Let_def v_def cur_def)
    ultimately show ?thesis by blast
  qed
qed

lemma byUser_step_invariant:
  assumes "distinct (map fst al)" "\<forall>k s. map_of al k = Some s \<longrightarrow> last' s \<noteq> None"
  shows "distinct (map fst (byUser_step a al))"
    and "\<forall>k s. map_of (byUser_step a al) k = Some s \<longrightarrow> last' s \<noteq> None"
proof -
  from byUser_step_shape [of a al] consider "byUser_step a al = al"
    | u v where "byUser_step a al = AList.update u v al" "last' v \<noteq> None"
    by blast
  then have "distinct (map fst (byUser_step a al))
      \<and> (\<forall>k s. map_of (byUser_step a al) k = Some s \<longrightarrow> last' s \<noteq> None)"
  proof cases
    case 1
    with assms show ?thesis by simp
  next
    case 2
    with assms show ?thesis
      by (simp add: distinct_update update_conv')
  qed
  then show "distinct (map fst (byUser_step a al))"
    and "\<forall>k s. map_of (byUser_step a al) k = Some s \<longrightarrow> last' s \<noteq> None"
    by simp_all
qed

lemma byUser_fold_invariant:
  "distinct (map fst al) \<Longrightarrow> \<forall>k s. map_of al k = Some s \<longrightarrow> last' s \<noteq> None \<Longrightarrow>
   distinct (map fst (fold byUser_step rows al))
   \<and> (\<forall>k s. map_of (fold byUser_step rows al) k = Some s \<longrightarrow> last' s \<noteq> None)"
proof (induction rows arbitrary: al)
  case Nil
  then show ?case by simp
next
  case (Cons a rows)
  have "distinct (map fst (byUser_step a al))"
    and "\<forall>k s. map_of (byUser_step a al) k = Some s \<longrightarrow> last' s \<noteq> None"
    by (rule byUser_step_invariant [OF Cons.prems])+
  from Cons.IH [OF this] show ?case
    by simp
qed

lemma byUser_wellformed:
  "distinct (map fst (byUser_of rows))" "\<forall>e \<in> set (byUser_of rows). last' (snd e) \<noteq> None"
proof -
  from byUser_fold_invariant [of "[]" rows]
  have d: "distinct (map fst (byUser_of rows))"
    and m: "\<forall>k s. map_of (byUser_of rows) k = Some s \<longrightarrow> last' s \<noteq> None"
    by (simp_all add: byUser_of_def)
  show "distinct (map fst (byUser_of rows))" by (rule d)
  show "\<forall>e \<in> set (byUser_of rows). last' (snd e) \<noteq> None"
  proof
    fix e assume "e \<in> set (byUser_of rows)"
    then have "(fst e, snd e) \<in> set (byUser_of rows)" by simp
    with d have "map_of (byUser_of rows) (fst e) = Some (snd e)"
      by (rule map_of_is_SomeI)
    with m show "last' (snd e) \<noteq> None" by blast
  qed
qed

text \<open>
  C8. The aggregation does not depend on the order in which the entries of the raw
  statistics are visited: for two lists of entries that are permutations of each other,
  with one entry per user id, both aggregation passes build the same map, provided the
  statistics do not mix an absent \<open>last\<close> with an empty-string \<open>last\<close>. The statistics that
  the consolidation pass builds from the activity rows always have \<open>last\<close> present, so
  for them the result holds without a proviso.
\<close>

theorem aggregate_order_independent:
  assumes perm: "mset ys = mset xs"
  shows "(distinct (map fst xs)
          \<and> ((\<forall>e \<in> set xs. last' (snd e) \<noteq> None) \<or> (\<forall>e \<in> set xs. last' (snd e) \<noteq> Some []))
          \<longrightarrow> aggregatedByUser ys = aggregatedByUser xs \<and> aggregatedStats ys = aggregatedStats xs)
       \<and> (xs = byUser_of activityRows
          \<longrightarrow> aggregatedByUser ys = aggregatedByUser xs \<and> aggregatedStats ys = aggregatedStats xs)"
  using aggregate_permuted [OF _ perm] byUser_wellformed [of activityRows]
  by blast

theorem aggregate_order_independent_witness:
  "(let xs = [(''6f07ae03-187e-4e25-a519-9f72f96f22ff'',
                 \<lparr>total' = 3, completed = 1, last' = Some ''2024-01-01''\<rparr>),
              (''u-7'', \<lparr>total' = 1, completed = 0, last' = None\<rparr>),
              (''eca885ad-1119-48ca-8efe-91efcbfb54b4'',
                 \<lparr>total' = 2, completed = 2, last' = Some ''2024-01-05''\<rparr>)]
    in aggregatedByUser (rev xs) = aggregatedByUser xs \<and> aggregatedStats (rev xs) = aggregatedStats xs)
   \<and> (let rows = [\<lparr>act_userid = Some ''eca885ad-1119-48ca-8efe-91efcbfb54b4'',
                    act_status = Some ''completed'', act_created_at = Some ''2024-01-05''\<rparr>,
                  \<lparr>act_userid = Some ''6f07ae03-187e-4e25-a519-9f72f96f22ff'',
                    act_status = None, act_created_at = Some ''2024-01-01''\<rparr>]
      in aggregatedByUser (rev (byUser_of rows)) = aggregatedByUser (byUser_of rows))"
  (is "Let ?xs _ \<and> Let ?rows _")
  using aggregate_order_independent [of "rev ?xs" ?xs]
    aggregate_order_independent [of "rev (byUser_of ?rows)" "byUser_of ?rows" ?rows]
  by simp

lemma pass_through_byUser:
  assumes "u \<noteq> ''6f07ae03-187e-4e25-a519-9f72f96f22ff''" "u \<noteq> ''eca885ad-1119-48ca-8efe-91efcbfb54b4''"
  shows "distinct (map fst xs) \<Longrightarrow>
         fold aggregate_step xs m u = (case map_of xs u of Some s \<Rightarrow> Some s | None \<Rightarrow> m u)"
proof (induction xs arbitrary: m)
  case Nil
  show ?case by simp
next
  case (Cons x xs)
  obtain k st where x: "x = (k, st)" by (cases x)
  from Cons.prems have d: "distinct (map fst xs)" and k: "k \<notin> fst ` set xs"
    by (simp_all add: x)
  from k have none: "k = u \<Longrightarrow> map_of xs u = None"
    by (simp add: map_of_eq_None_iff)
  have step: "aggregate_step (k, st) m u = (if k = u then Some st else m u)"
    using assms by (simp add: aggregate_step_eq)
  have "fold aggregate_step (x # xs) m u = fold aggregate_step xs (aggregate_step (k, st) m) u"
    by (simp add: x)
  also have "\<dots> = (case map_of xs u of Some s \<Rightarrow> Some s | None \<Rightarrow> aggregate_step (k, st) m u)"
    by (rule Cons.IH [OF d])
  also have "\<dots> = (case map_of (x # xs) u of Some s \<Rightarrow> Some s | None \<Rightarrow> m u)"
  proof (cases "k = u")
    case True
    with none step show ?thesis by (simp add: x)
  next
    case False
    with step show ?thesis by (simp add: x split: option.splits)
  qed
  finally show ?case .
qed

lemma pass_through_stats:
  assumes "u \<noteq> ''6f07ae03-187e-4e25-a519-9f72f96f22ff''" "u \<noteq> ''eca885ad-1119-48ca-8efe-91efcbfb54b4''"
  shows "distinct (map fst xs) \<Longrightarrow>
         fold aggregate_stats_step xs m u
           = (case map_of xs u of Some s \<Rightarrow> Some (accumulate (m u) s) | None \<Rightarrow> m u)"
proof (induction xs arbitrary: m)
  case Nil
  show ?case by simp
next
  case (Cons x xs)
  obtain k st where x: "x = (k, st)" by (cases x)
  from Cons.prems have d: "distinct (map fst xs)" and k: "k \<notin> fst ` set xs"
    by (simp_all add: x)
  from k have none: "k = u \<Longrightarrow> map_of xs u = None"
    by (simp add: map_of_eq_None_iff)
  have step: "aggregate_stats_step (k, st) m u = (if k = u then Some (accumulate (m u) st) else m u)"
    using assms by (simp add: aggregate_stats_step_eq)
  have "fold aggregate_stats_step (x # xs) m u
          = fold aggregate_stats_step xs (aggregate_stats_step (k, st) m) u"
    by (simp add: x)
  also have "\<dots> = (case map_of xs u of
                      Some s \<Rightarrow> Some (accumulate (aggregate_stats_step (k, st) m u) s)
                    | None \<Rightarrow> aggregate_stats_step (k, st) m u)"
    by (rule Cons.IH [OF d])
  also have "\<dots> = (case map_of (x # xs) u of Some s \<Rightarrow> Some (accumulate (m u) s) | None \<Rightarrow> m u)"
  proof (cases "k = u")
    case True
    with none step show ?thesis by (simp add: x)
  next
    case False
    with step show ?thesis by (simp add: x split: option.splits)
  qed
  finally show ?case .
qed

text \<open>
  C7. For the verified alias group, whose first member is the primary id, the raw statistics
  \<open>{X: {total 3, last "2024-01-01"}, Y: {total 2, last "2024-01-05"}}\<close> aggregate to the
  single entry \<open>X: {total 5, last "2024-01-05"}\<close> in either order of visit and in both
  aggregation passes (the map has no entry for \<open>Y\<close>); the \<open>completed\<close> counts are summed as
  well. A user id that is not in the alias table keeps its statistics unchanged.
\<close>

theorem alias_group_scenario:
  "aggregatedByUser
       [(''6f07ae03-187e-4e25-a519-9f72f96f22ff'', \<lparr>total' = 3, completed = cx, last' = Some ''2024-01-01''\<rparr>),
        (''eca885ad-1119-48ca-8efe-91efcbfb54b4'', \<lparr>total' = 2, completed = cy, last' = Some ''2024-01-05''\<rparr>)]
     = [''6f07ae03-187e-4e25-a519-9f72f96f22ff''
          \<mapsto> \<lparr>total' = 5, completed = cx + cy, last' = Some ''2024-01-05''\<rparr>]
   \<and> aggregatedByUser
       [(''eca885ad-1119-48ca-8efe-91efcbfb54b4'', \<lparr>total' = 2, completed = cy, last' = Some ''2024-01-05''\<rparr>),
        (''6f07ae03-187e-4e25-a519-9f72f96f22ff'', \<lparr>total' = 3, completed = cx, last' = Some ''2024-01-01''\<rparr>)]
     = [''6f07ae03-187e-4e25-a519-9f72f96f22ff''
          \<mapsto> \<lparr>total' = 5, completed = cy + cx, last' = Some ''2024-01-05''\<rparr>]
   \<and> aggregatedStats
       [(''6f07ae03-187e-4e25-a519-9f72f96f22ff'', \<lparr>total' = 3, completed = cx, last' = Some ''2024-01-01''\<rparr>),
        (''eca885ad-1119-48ca-8efe-91efcbfb54b4'', \<lparr>total' = 2, completed = cy, last' = Some ''2024-01-05''\<rparr>)]
     = [''6f07ae03-187e-4e25-a519-9f72f96f22ff''
          \<mapsto> \<lparr>total' = 5, completed = cx + cy, last' = Some ''2024-01-05''\<rparr>]
   \<and> (distinct (map fst xs) \<and> (u, s) \<in> set xs \<and> map_of VERIFIED_ALIASES u = None
        \<longrightarrow> aggregatedByUser xs u = Some s \<and> aggregatedStats xs u = Some s)"
proof -
  have pass: "aggregatedByUser xs u = Some s \<and> aggregatedStats xs u = Some s"
    if "distinct (map fst xs) \<and> (u, s) \<in> set xs \<and> map_of VERIFIED_ALIASES u = None"
  proof -
    from that have u: "u \<noteq> ''6f07ae03-187e-4e25-a519-9f72f96f22ff''"
        "u \<noteq> ''eca885ad-1119-48ca-8efe-91efcbfb54b4''"
      by (auto simp: alias_lookup split: if_splits)
    from that have "map_of xs u = Some s" by simp
    with pass_through_byUser [OF u, of xs Map.empty] pass_through_stats [OF u, of xs Map.empty] that
    show ?thesis
      by (simp add: aggregatedByUser_def aggregatedStats_def)
  qed
  show ?thesis
    using pass
    by (simp add: aggregatedByUser_def aggregatedStats_def aggregate_step_eq aggregate_stats_step_eq
        accumulate_def merge_last_def)
qed

theorem alias_group_scenario_witness:
  "aggregatedByUser
     [(''u-7'', \<lparr>total' = 4, completed = 1, last' = Some ''2024-03-02''\<rparr>),
      (''eca885ad-1119-48ca-8efe-91efcbfb54b4'', \<lparr>total' = 2, completed = 0, last' = Some ''2024-01-05''\<rparr>)]
     ''u-7'' = Some \<lparr>total' = 4, completed = 1, last' = Some ''2024-03-02''\<rparr>
   \<and> aggregatedStats
     [(''u-7'', \<lparr>total' = 4, completed = 1, last' = Some ''2024-03-02''\<rparr>),
      (''eca885ad-1119-48ca-8efe-91efcbfb54b4'', \<lparr>total' = 2, completed = 0, last' = Some ''2024-01-05''\<rparr>)]
     ''u-7'' = Some \<lparr>total' = 4, completed = 1, last' = Some ''2024-03-02''\<rparr>"
  using alias_group_scenario
    [where xs = "[(''u-7'', \<lparr>total' = 4, completed = 1, last' = Some ''2024-03-02''\<rparr>),
      (''eca885ad-1119-48ca-8efe-91efcbfb54b4'', \<lparr>total' = 2, completed = 0, last' = Some ''2024-01-05''\<rparr>)]"
      and u = "''u-7''" and s = "\<lparr>total' = 4, completed = 1, last' = Some ''2024-03-02''\<rparr>"]
  by (simp add: VERIFIED_ALIASES_def)

section \<open>Properties of the submission gate\<close>

lemma GET_data_iff:
  "GET env kid = JsonData keg cats st \<longleftrightarrow>
     (snd (getCurrentRoleName env) = Some ''student'' \<longrightarrow> isSubmissionWindowOpen env = Inr True)
     \<and> fetchKegiatan env kid = Inr keg
     \<and> categories env = Inr cats
     \<and> submissionStatus env kid (fst (getCurrentRoleName env)) (snd (getCurrentRoleName env)) = Inr st"
  by (auto simp: GET_def caught_def split: prod.splits sum.splits if_splits)

lemma frame_role [simp]:
  "getCurrentRoleName (env\<lparr>now := t\<rparr>) = getCurrentRoleName env"
  "getCurrentRoleName (env\<lparr>aktivitas := r\<rparr>) = getCurrentRoleName env"
  "getCurrentRoleName (env\<lparr>submission_window := ws\<rparr>) = getCurrentRoleName env"
  by (simp_all add: getCurrentRoleName_def split: option.splits)

lemma frame_window [simp]:
  "isSubmissionWindowOpen (env\<lparr>now := t\<rparr>) = isSubmissionWindowOpen env"
  "isSubmissionWindowOpen (env\<lparr>aktivitas := r\<rparr>) = isSubmissionWindowOpen env"
  by (simp_all add: isSubmissionWindowOpen_def)

lemma frame_kegiatan [simp]:
  "fetchKegiatan (env\<lparr>now := t\<rparr>) kid = fetchKegiatan env kid"
  "fetchKegiatan (env\<lparr>aktivitas := r\<rparr>) kid = fetchKegiatan env kid"
  "fetchKegiatan (env\<lparr>submission_window := ws\<rparr>) kid = fetchKegiatan env kid"
  by (simp_all add: fetchKegiatan_def)

lemma frame_existing [simp]:
  "existingToday (env\<lparr>submission_window := ws\<rparr>) kid uid = existingToday env kid uid"
  by (simp add: existingToday_def)

lemma frame_status [simp]:
  "submissionStatus (env\<lparr>submission_window := ws\<rparr>) kid u r = submissionStatus env kid u r"
  unfolding submissionStatus_def frame_existing ..

lemma maybeSingle_Some_iff: "data (maybeSingle rows) = Some r \<longleftrightarrow> rows = [r]"
  by (auto simp: maybeSingle_def split: list.splits)

lemma run_query_Some_iff:
  "data (run_query flt q) = Some r \<longleftrightarrow> flt = None \<and> data q = Some r"
  by (auto simp: run_query_def split: option.splits)

lemma status_disallowed:
  assumes "submissionStatus env kid userId roleName = Inr st" "\<not> canSubmit st"
  obtains uid row where "userId = Some uid" "uid \<noteq> []" "roleName = Some ''student''"
    "fault env ''aktivitas'' = None"
    "filter (\<lambda>a. a_kegiatanid a = Some kid \<and> a_userid a = Some uid
                  \<and> submitted_date a = Some (todayInJakarta (now env))) (aktivitas env) = [row]"
    "st = \<lparr>canSubmit = False, lastSubmittedAt = a_created_at row\<rparr>"
  using assms
  by (auto simp: submissionStatus_def existingToday_def Let_def run_query_Some_iff maybeSingle_Some_iff
      split: option.splits if_splits)

lemma status_of_single:
  assumes "uid \<noteq> []" "fault env ''aktivitas'' = None"
    "filter (\<lambda>a. a_kegiatanid a = Some kid \<and> a_userid a = Some uid
                  \<and> submitted_date a = Some (todayInJakarta (now env))) (aktivitas env) = [row]"
  shows "submissionStatus env kid (Some uid) (Some ''student'')
           = Inr \<lparr>canSubmit = False, lastSubmittedAt = a_created_at row\<rparr>"
  using assms
  by (simp add: submissionStatus_def existingToday_def Let_def run_query_def maybeSingle_def)

lemma status_of_none:
  assumes "fault env ''aktivitas'' = None"
    "filter (\<lambda>a. a_kegiatanid a = Some kid \<and> a_userid a = Some uid
                  \<and> submitted_date a = Some (todayInJakarta (now env))) (aktivitas env) = []"
  shows "submissionStatus env kid (Some uid) roleName
           = Inr \<lparr>canSubmit = True, lastSubmittedAt = None\<rparr>"
  using assms
  by (simp add: submissionStatus_def existingToday_def Let_def run_query_def maybeSingle_def)

lemma distinct_singleton_list:
  assumes "distinct xs" "r \<in> set xs" "\<forall>x \<in> set xs. x = r"
  shows "xs = [r]"
proof (cases xs)
  case Nil
  with assms show ?thesis by simp
next
  case (Cons a as)
  with assms have "a = r" by simp
  moreover have "as = []"
  proof (cases as)
    case Nil then show ?thesis .
  next
    case (Cons b bs)
    with \<open>xs = a # as\<close> assms have "b = r" "a \<noteq> b" by auto
    with \<open>a = r\<close> show ?thesis by simp
  qed
  ultimately show ?thesis using Cons by simp
qed

lemma unique_filter_single:
  assumes uniq: "daily_unique rows" and mem: "row \<in> set rows"
    and key: "a_kegiatanid row = Some kid" "a_userid row = Some uid" "submitted_date row = Some d"
  shows "filter (\<lambda>a. a_kegiatanid a = Some kid \<and> a_userid a = Some uid \<and> submitted_date a = Some d) rows
           = [row]"
proof (rule distinct_singleton_list)
  from uniq have "distinct rows"
    by (auto simp: daily_unique_def dest: distinct_map[THEN iffD1])
  then show "distinct (filter (\<lambda>a. a_kegiatanid a = Some kid \<and> a_userid a = Some uid \<and> submitted_date a = Some d) rows)"
    by simp
  show "row \<in> set (filter (\<lambda>a. a_kegiatanid a = Some kid \<and> a_userid a = Some uid \<and> submitted_date a = Some d) rows)"
    using mem key by simp
  show "\<forall>x\<in>set (filter (\<lambda>a. a_kegiatanid a = Some kid \<and> a_userid a = Some uid \<and> submitted_date a = Some d) rows). x = row"
  proof
    fix x assume "x \<in> set (filter (\<lambda>a. a_kegiatanid a = Some kid \<and> a_userid a = Some uid \<and> submitted_date a = Some d) rows)"
    then have x: "x \<in> set rows" "a_kegiatanid x = Some kid" "a_userid x = Some uid" "submitted_date x = Some d"
      by simp_all
    from uniq mem x key show "x = row"
      unfolding daily_unique_def by (metis option.distinct(1))
  qed
qed

lemma first_instant:
  "todayInJakarta ((d + 1) * MS_PER_DAY - JAKARTA_OFFSET_MS) = d + 1"
  "todayInJakarta ((d + 1) * MS_PER_DAY - JAKARTA_OFFSET_MS - 1) = d"
  by (simp_all add: todayInJakarta_def MS_PER_DAY_def JAKARTA_OFFSET_MS_def)


lemma frame_window_existing:
  "existingToday (env\<lparr>submission_window := ws, fault := (fault env)(''submission_window'' := f)\<rparr>) kid uid
     = existingToday env kid uid"
  by (simp add: existingToday_def)

lemma frame_window_status:
  "submissionStatus (env\<lparr>submission_window := ws, fault := (fault env)(''submission_window'' := f)\<rparr>) kid u r
     = submissionStatus env kid u r"
  unfolding submissionStatus_def frame_window_existing ..

lemma frame_window_table:
  "getCurrentRoleName (env\<lparr>submission_window := ws, fault := (fault env)(''submission_window'' := f)\<rparr>)
     = getCurrentRoleName env"
  "fetchKegiatan (env\<lparr>submission_window := ws, fault := (fault env)(''submission_window'' := f)\<rparr>) kid
     = fetchKegiatan env kid"
  by (simp_all add: getCurrentRoleName_def fetchKegiatan_def split: option.splits)

text \<open>
  C5. For a student (the handler's test: the joined role name is the string \<open>student\<close>),
  when the single submission-window row has \<open>is_open = false\<close>, the handler answers 403
  with the window-closed message whatever the \<open>aktivitas\<close> table holds (the daily records
  are never read); for an actor whose role name is not \<open>student\<close> the answer does not
  depend on the window table, nor on a failure of its lookup: the window check is bypassed.
\<close>

theorem student_window_closed:
  shows "(snd (getCurrentRoleName env) = Some ''student''
          \<and> filter (\<lambda>w. w_id w = 1) (submission_window env) = [w] \<and> is_open w = Some False
          \<and> fault env ''submission_window'' = None
          \<longrightarrow> GET (env\<lparr>aktivitas := recs\<rparr>) kid = JsonError WINDOW_CLOSED 403)
       \<and> (snd (getCurrentRoleName env) \<noteq> Some ''student''
          \<longrightarrow> GET (env\<lparr>submission_window := ws, fault := (fault env)(''submission_window'' := f)\<rparr>) kid
                = GET env kid)"
proof (intro conjI impI)
  assume a: "snd (getCurrentRoleName env) = Some ''student''
          \<and> filter (\<lambda>w. w_id w = 1) (submission_window env) = [w] \<and> is_open w = Some False
          \<and> fault env ''submission_window'' = None"
  then have "isSubmissionWindowOpen env = Inr False"
    by (simp add: isSubmissionWindowOpen_def run_query_def maybeSingle_def)
  with a show "GET (env\<lparr>aktivitas := recs\<rparr>) kid = JsonError WINDOW_CLOSED 403"
    by (auto simp: GET_def split: prod.splits)
next
  assume "snd (getCurrentRoleName env) \<noteq> Some ''student''"
  then show "GET (env\<lparr>submission_window := ws, fault := (fault env)(''submission_window'' := f)\<rparr>) kid = GET env kid"
    by (auto simp: GET_def frame_window_table frame_window_status split: prod.splits sum.splits)
qed

theorem student_window_closed_witness:
  "(let student = \<lparr>auth_user = Some ''s1'',
        user_profiles = [\<lparr>pj_userid = ''s1'', pj_role = RoleObject (Some ''student'')\<rparr>],
        submission_window = [\<lparr>w_id = 1, is_open = Some False\<rparr>],
        aktivitas = [], kegiatan = [\<lparr>kegiatanid = ''k1'', kegiatanname = Some ''Sholat'', k_created_at = None\<rparr>],
        fault = (\<lambda>t. None), categories = Inr (), now = 0\<rparr>
    in GET (student\<lparr>aktivitas := [\<lparr>activityid = ''a1'', a_kegiatanid = Some ''k1'',
              a_userid = Some ''s1'', submitted_date = Some 0, a_created_at = None\<rparr>]\<rparr>) ''k1''
         = JsonError WINDOW_CLOSED 403)
   \<and> (let teacher = \<lparr>auth_user = Some ''t1'',
        user_profiles = [\<lparr>pj_userid = ''t1'', pj_role = RoleObject (Some ''teacher'')\<rparr>],
        submission_window = [\<lparr>w_id = 1, is_open = Some True\<rparr>],
        aktivitas = [], kegiatan = [\<lparr>kegiatanid = ''k1'', kegiatanname = Some ''Sholat'', k_created_at = None\<rparr>],
        fault = (\<lambda>t. None), categories = Inr (), now = 0\<rparr>
    in GET (teacher\<lparr>submission_window := [\<lparr>w_id = 1, is_open = Some False\<rparr>],
              fault := (fault teacher)(''submission_window'' := None)\<rparr>) ''k1''
         = JsonData (Some \<lparr>kegiatanid = ''k1'', kegiatanname = Some ''Sholat'', k_created_at = None\<rparr>) ()
             \<lparr>canSubmit = True, lastSubmittedAt = None\<rparr>)"
  (is "Let ?student _ \<and> Let ?teacher _")
proof -
  have t: "GET ?teacher ''k1''
         = JsonData (Some \<lparr>kegiatanid = ''k1'', kegiatanname = Some ''Sholat'', k_created_at = None\<rparr>) ()
             \<lparr>canSubmit = True, lastSubmittedAt = None\<rparr>"
    by (simp add: GET_def getCurrentRoleName_def run_query_def maybeSingle_def single_def
        fetchKegiatan_def submissionStatus_def)
  show ?thesis
    using student_window_closed [where env = ?student and w = "\<lparr>w_id = 1, is_open = Some False\<rparr>"
          and kid = "''k1''"]
      student_window_closed [where env = ?teacher and kid = "''k1''"
          and ws = "[\<lparr>w_id = 1, is_open = Some False\<rparr>]" and f = None]
    unfolding Let_def t [symmetric]
    by (simp add: getCurrentRoleName_def run_query_def maybeSingle_def)
qed

text \<open>
  C6. If at the instant \<open>now env\<close> the handler answers with \<open>canSubmit = false\<close> (a record
  of the actor for this task dated today in Jakarta exists), then it gives the same answer
  at every instant \<open>T'\<close> of the same civil day, for every later state of the table that
  keeps the existing rows and respects the uniqueness constraint; and when no stored record
  is dated after today, the answer at the first instant of the next civil day, with the
  store unchanged, has \<open>canSubmit = true\<close>. That instant is the first one of the next day:
  one millisecond earlier is still today.
\<close>

theorem canSubmit_within_day:
  assumes at_T: "GET env kid = JsonData keg cats st" and denied: "\<not> canSubmit st"
  shows "(todayInJakarta T' = todayInJakarta (now env)
            \<and> set (aktivitas env) \<subseteq> set recs' \<and> daily_unique recs'
          \<longrightarrow> GET (env\<lparr>now := T', aktivitas := recs'\<rparr>) kid = JsonData keg cats st)
       \<and> ((\<forall>a \<in> set (aktivitas env). \<forall>d. submitted_date a = Some d \<longrightarrow> d \<le> todayInJakarta (now env))
          \<longrightarrow> GET (env\<lparr>now := (todayInJakarta (now env) + 1) * MS_PER_DAY - JAKARTA_OFFSET_MS\<rparr>) kid
                = JsonData keg cats \<lparr>canSubmit = True, lastSubmittedAt = None\<rparr>
              \<and> todayInJakarta ((todayInJakarta (now env) + 1) * MS_PER_DAY - JAKARTA_OFFSET_MS)
                  = todayInJakarta (now env) + 1
              \<and> todayInJakarta ((todayInJakarta (now env) + 1) * MS_PER_DAY - JAKARTA_OFFSET_MS - 1)
                  = todayInJakarta (now env))"
proof -
  let ?uo = "fst (getCurrentRoleName env)" and ?ro = "snd (getCurrentRoleName env)"
  from at_T have parts:
    "?ro = Some ''student'' \<longrightarrow> isSubmissionWindowOpen env = Inr True"
    "fetchKegiatan env kid = Inr keg" "categories env = Inr cats"
    "submissionStatus env kid ?uo ?ro = Inr st"
    by (simp_all add: GET_data_iff)
  from parts(4) denied obtain uid row where u: "?uo = Some uid" "uid \<noteq> []" "?ro = Some ''student''"
    and nofault: "fault env ''aktivitas'' = None"
    and one: "filter (\<lambda>a. a_kegiatanid a = Some kid \<and> a_userid a = Some uid
                  \<and> submitted_date a = Some (todayInJakarta (now env))) (aktivitas env) = [row]"
    and st: "st = \<lparr>canSubmit = False, lastSubmittedAt = a_created_at row\<rparr>"
    by (rule status_disallowed)
  from one have "row \<in> set (filter (\<lambda>a. a_kegiatanid a = Some kid \<and> a_userid a = Some uid
                  \<and> submitted_date a = Some (todayInJakarta (now env))) (aktivitas env))"
    by simp
  then have row: "row \<in> set (aktivitas env)" "a_kegiatanid row = Some kid" "a_userid row = Some uid"
    "submitted_date row = Some (todayInJakarta (now env))"
    by simp_all
  have same_day: "GET (env\<lparr>now := T', aktivitas := recs'\<rparr>) kid = JsonData keg cats st"
    if h: "todayInJakarta T' = todayInJakarta (now env) \<and> set (aktivitas env) \<subseteq> set recs' \<and> daily_unique recs'"
  proof -
    from h row have "row \<in> set recs'" by auto
    with h row have "filter (\<lambda>a. a_kegiatanid a = Some kid \<and> a_userid a = Some uid
                  \<and> submitted_date a = Some (todayInJakarta T')) recs' = [row]"
      by (simp add: unique_filter_single)
    with u nofault have "submissionStatus (env\<lparr>now := T', aktivitas := recs'\<rparr>) kid (Some uid) (Some ''student'')
        = Inr st"
      unfolding st by (intro status_of_single) simp_all
    with parts u show ?thesis
      by (simp add: GET_data_iff)
  qed
  let ?T0 = "(todayInJakarta (now env) + 1) * MS_PER_DAY - JAKARTA_OFFSET_MS"
  have next_day: "GET (env\<lparr>now := ?T0\<rparr>) kid = JsonData keg cats \<lparr>canSubmit = True, lastSubmittedAt = None\<rparr>"
    if h: "\<forall>a \<in> set (aktivitas env). \<forall>d. submitted_date a = Some d \<longrightarrow> d \<le> todayInJakarta (now env)"
  proof -
    have "filter (\<lambda>a. a_kegiatanid a = Some kid \<and> a_userid a = Some uid
                  \<and> submitted_date a = Some (todayInJakarta ?T0)) (aktivitas env) = []"
      using h by (fastforce simp: filter_empty_conv first_instant)
    with nofault have "submissionStatus (env\<lparr>now := ?T0\<rparr>) kid (Some uid) (Some ''student'')
        = Inr \<lparr>canSubmit = True, lastSubmittedAt = None\<rparr>"
      by (intro status_of_none) simp_all
    with parts u show ?thesis
      by (simp add: GET_data_iff)
  qed
  from same_day next_day show ?thesis
    by (simp add: first_instant)
qed

theorem canSubmit_within_day_witness:
  "(let env = \<lparr>auth_user = Some ''s1'',
        user_profiles = [\<lparr>pj_userid = ''s1'', pj_role = RoleObject (Some ''student'')\<rparr>],
        submission_window = [\<lparr>w_id = 1, is_open = Some True\<rparr>],
        aktivitas = [\<lparr>activityid = ''a1'', a_kegiatanid = Some ''k1'',
              a_userid = Some ''s1'', submitted_date = Some 0, a_created_at = Some ''1970-01-01T02:00:00Z''\<rparr>],
        kegiatan = [\<lparr>kegiatanid = ''k1'', kegiatanname = Some ''Sholat'', k_created_at = None\<rparr>],
        fault = (\<lambda>t. None), categories = Inr (), now = 7200000\<rparr>
    in GET (env\<lparr>now := 61199999, aktivitas :=
               [\<lparr>activityid = ''a2'', a_kegiatanid = Some ''k2'', a_userid = Some ''s1'',
                  submitted_date = Some 0, a_created_at = None\<rparr>,
                \<lparr>activityid = ''a1'', a_kegiatanid = Some ''k1'', a_userid = Some ''s1'',
                  submitted_date = Some 0, a_created_at = Some ''1970-01-01T02:00:00Z''\<rparr>]\<rparr>) ''k1''
         = JsonData (Some \<lparr>kegiatanid = ''k1'', kegiatanname = Some ''Sholat'', k_created_at = None\<rparr>) ()
             \<lparr>canSubmit = False, lastSubmittedAt = Some ''1970-01-01T02:00:00Z''\<rparr>
       \<and> GET (env\<lparr>now := 61200000\<rparr>) ''k1''
         = JsonData (Some \<lparr>kegiatanid = ''k1'', kegiatanname = Some ''Sholat'', k_created_at = None\<rparr>) ()
             \<lparr>canSubmit = True, lastSubmittedAt = None\<rparr>)"
  (is "Let ?env _")
proof -
  have at_T: "GET ?env ''k1''
         = JsonData (Some \<lparr>kegiatanid = ''k1'', kegiatanname = Some ''Sholat'', k_created_at = None\<rparr>) ()
             \<lparr>canSubmit = False, lastSubmittedAt = Some ''1970-01-01T02:00:00Z''\<rparr>"
    by (simp add: GET_def getCurrentRoleName_def run_query_def maybeSingle_def single_def
        fetchKegiatan_def submissionStatus_def existingToday_def isSubmissionWindowOpen_def
        todayInJakarta_def JAKARTA_OFFSET_MS_def MS_PER_DAY_def)
  have denied: "\<not> canSubmit \<lparr>canSubmit = False, lastSubmittedAt = Some ''1970-01-01T02:00:00Z''\<rparr>"
    by simp
  show ?thesis
    using canSubmit_within_day [OF at_T denied, of 61199999
               "[\<lparr>activityid = ''a2'', a_kegiatanid = Some ''k2'', a_userid = Some ''s1'',
                  submitted_date = Some 0, a_created_at = None\<rparr>,
                \<lparr>activityid = ''a1'', a_kegiatanid = Some ''k1'', a_userid = Some ''s1'',
                  submitted_date = Some 0, a_created_at = Some ''1970-01-01T02:00:00Z''\<rparr>]"]
    by (simp add: daily_unique_def todayInJakarta_def JAKARTA_OFFSET_MS_def MS_PER_DAY_def)
qed

text \<open>
  C10. When the store holds no submission-window row with id 1 (the table has no such row,
  or the lookup comes back with the no-row code PGRST116), \<open>isSubmissionWindowOpen\<close>
  answers false, and the request of a student is refused with status 403: an absent
  window is a closed window.
\<close>

theorem window_absent_closed:
  assumes absent: "\<forall>w \<in> set (submission_window env). w_id w \<noteq> 1"
      and lookup: "fault env ''submission_window'' = None
                   \<or> (\<exists>e. fault env ''submission_window'' = Some e \<and> code e = ''PGRST116'')"
  shows "isSubmissionWindowOpen env = Inr False
         \<and> (snd (getCurrentRoleName env) = Some ''student''
              \<longrightarrow> GET env kid = JsonError WINDOW_CLOSED 403)"
proof -
  from absent have "filter (\<lambda>w. w_id w = 1) (submission_window env) = []"
    by (simp add: filter_empty_conv)
  with lookup have closed: "isSubmissionWindowOpen env = Inr False"
    by (auto simp: isSubmissionWindowOpen_def run_query_def maybeSingle_def)
  then show ?thesis
    by (auto simp: GET_def split: prod.splits)
qed

theorem window_absent_closed_witness:
  "isSubmissionWindowOpen
     \<lparr>auth_user = Some ''s1'',
      user_profiles = [\<lparr>pj_userid = ''s1'', pj_role = RoleObject (Some ''student'')\<rparr>],
      submission_window = [\<lparr>w_id = 2, is_open = Some True\<rparr>], aktivitas = [], kegiatan = [],
      fault = (\<lambda>t. None), categories = Inr (), now = 0\<rparr> = Inr False
   \<and> GET
     \<lparr>auth_user = Some ''s1'',
      user_profiles = [\<lparr>pj_userid = ''s1'', pj_role = RoleObject (Some ''student'')\<rparr>],
      submission_window = [\<lparr>w_id = 2, is_open = Some True\<rparr>], aktivitas = [], kegiatan = [],
      fault = (\<lambda>t. None), categories = Inr (), now = 0\<rparr> ''k1'' = JsonError WINDOW_CLOSED 403"
  using window_absent_closed
    [of "\<lparr>auth_user = Some ''s1'',
      user_profiles = [\<lparr>pj_userid = ''s1'', pj_role = RoleObject (Some ''student'')\<rparr>],
      submission_window = [\<lparr>w_id = 2, is_open = Some True\<rparr>], aktivitas = [], kegiatan = [],
      fault = (\<lambda>t. None), categories = Inr (), now = 0\<rparr>" "''k1''"]
  by (simp add: getCurrentRoleName_def run_query_def maybeSingle_def)

end
